theory Spec2Isabelle
  imports Complex_Main
begin

section \<open>CatBoost + ICA band reduction: the pipeline of \<open>4._catboost_ICA_GPU.py\<close>\<close>

text \<open>
  The script is an orchestration of numpy, scikit-learn, CatBoost and matplotlib. The
  three functions it defines (\<open>visualize_classification_map\<close>, \<open>model_train_test\<close>,
  \<open>ICA\<close>) are embedded here statement by statement. The library routines they call are
  not part of the repository: they are taken as parameters (the record \<open>lib\<close>), each
  returning either an error or its result, and every call is written to a trace so that
  the order of the calls and their arguments can be stated.
\<close>

subsection \<open>Arrays\<close>

text \<open>
  A numpy array is its shape and its elements in row-major (C) order of the indices,
  which is the order \<open>reshape\<close> reads and writes.
\<close>

record 'a ndarray =
  shape :: "nat list"
  data :: "'a list"

datatype error =
    ValueError string
  | IndexError string
  | TypeError string
  | FileNotFoundError string
  | LibraryError string

definition nd_size :: "'a ndarray \<Rightarrow> nat" where
  "nd_size a = prod_list (shape a)"

definition well_formed :: "'a ndarray \<Rightarrow> bool" where
  "well_formed a \<longleftrightarrow> length (data a) = nd_size a"

text \<open>\<open>a.shape[i]\<close>: a tuple index out of range raises IndexError.\<close>

definition shape_at :: "'a ndarray \<Rightarrow> nat \<Rightarrow> error + nat" where
  "shape_at a i =
     (if i < length (shape a) then Inr (shape a ! i)
      else Inl (IndexError ''tuple index out of range''))"

text \<open>\<open>a.reshape(d1, ..., dk)\<close>: the element count must be unchanged.\<close>

definition reshape :: "'a ndarray \<Rightarrow> nat list \<Rightarrow> error + 'a ndarray" where
  "reshape a new_shape =
     (if prod_list new_shape = nd_size a then Inr (a\<lparr>shape := new_shape\<rparr>)
      else Inl (ValueError ''cannot reshape array''))"

text \<open>\<open>a.reshape(-1)\<close>: the one-dimensional view, which always exists.\<close>

definition reshape_flat :: "'a ndarray \<Rightarrow> 'a ndarray" where
  "reshape_flat a = a\<lparr>shape := [nd_size a]\<rparr>"

text \<open>\<open>np.unique\<close>: the sorted distinct elements.\<close>

definition np_unique :: "int ndarray \<Rightarrow> int list" where
  "np_unique a = sort (remdups (data a))"

text \<open>
  Nested views, used to state element order: the rows of a two-dimensional array, and
  the rows of pixels of a three-dimensional cube.
\<close>

definition slice_at :: "'a list \<Rightarrow> nat \<Rightarrow> nat \<Rightarrow> 'a list" where
  "slice_at xs w p = take w (drop (p * w) xs)"

definition rows2 :: "'a ndarray \<Rightarrow> 'a list list" where
  "rows2 a = map (slice_at (data a) (shape a ! 1)) [0..<shape a ! 0]"

definition rows3 :: "'a ndarray \<Rightarrow> 'a list list list" where
  "rows3 a =
     map (\<lambda>i. map (\<lambda>j. slice_at (data a) (shape a ! 2) (i * (shape a ! 1) + j))
                [0..<shape a ! 1])
         [0..<shape a ! 0]"

subsection \<open>The libraries, as parameters\<close>

record cb_params =
  iterations :: nat
  learning_rate :: rat
  depth :: nat
  loss_function :: string
  eval_metric :: string
  random_seed :: nat
  task_type :: string
  early_stopping_rounds :: nat
  custom_metric :: "string list"

datatype timepoint = Before_fit | After_fit

text \<open>
  \<open>random_state\<close> is optional in scikit-learn: \<open>None\<close> draws from the global generator,
  \<open>Some s\<close> is the seed \<open>s\<close>. The model type \<open>'m\<close> is the fitted classifier.
\<close>

record 'm lib =
  StandardScaler_fit_transform :: "rat ndarray \<Rightarrow> error + rat ndarray"
  FastICA_fit_transform :: "int \<Rightarrow> nat option \<Rightarrow> rat ndarray \<Rightarrow> error + rat ndarray"
  train_test_split ::
    "rat ndarray \<Rightarrow> int ndarray \<Rightarrow> int ndarray option \<Rightarrow> rat \<Rightarrow> nat option \<Rightarrow>
     error + (rat ndarray \<times> rat ndarray \<times> int ndarray \<times> int ndarray)"
  CatBoost_fit ::
    "cb_params \<Rightarrow> rat ndarray \<Rightarrow> int ndarray \<Rightarrow> rat ndarray \<times> int ndarray \<Rightarrow> error + 'm"
  CatBoost_predict :: "'m \<Rightarrow> rat ndarray \<Rightarrow> error + int ndarray"
  accuracy_score :: "int ndarray \<Rightarrow> int ndarray \<Rightarrow> error + rat"
  classification_report :: "int ndarray \<Rightarrow> int ndarray \<Rightarrow> error + string"
  confusion_matrix :: "int ndarray \<Rightarrow> int ndarray \<Rightarrow> error + int ndarray"
  time_time :: "timepoint \<Rightarrow> rat"

subsection \<open>Runs: a trace of calls and prints, and an error or a result\<close>

datatype event =
    Call_StandardScaler_fit_transform "rat ndarray"
  | Call_FastICA_fit_transform int "nat option" "rat ndarray"
  | Call_train_test_split "rat ndarray" "int ndarray" "int ndarray option" rat "nat option"
  | Call_CatBoost_fit cb_params "rat ndarray" "int ndarray" "rat ndarray \<times> int ndarray"
  | Call_CatBoost_predict "rat ndarray"
  | Call_accuracy_score "int ndarray" "int ndarray"
  | Call_classification_report "int ndarray" "int ndarray"
  | Call_confusion_matrix "int ndarray" "int ndarray"
  | Call_plt_figure "nat \<times> nat"
  | Call_plt_subplot nat nat nat
  | Call_plt_imshow "int ndarray" string
  | Call_plt_title string
  | Call_plt_axis string
  | Call_plt_savefig string
  | Print_text string
  | Print_unique string "int list"
  | Print_shape string "nat list"
  | Print_accuracy string rat
  | Print_matrix "int ndarray"

type_synonym 'a run = "event list \<times> (error + 'a)"

definition ret :: "'a \<Rightarrow> 'a run" where
  "ret x = ([], Inr x)"

definition raise :: "error \<Rightarrow> 'a run" where
  "raise e = ([], Inl e)"

definition emit :: "event \<Rightarrow> unit run" where
  "emit ev = ([ev], Inr ())"

text \<open>A local computation that may raise, leaving nothing in the trace.\<close>

definition lift :: "error + 'a \<Rightarrow> 'a run" where
  "lift r = ([], r)"

text \<open>A library call: the call is recorded, then it returns or raises.\<close>

definition call :: "event \<Rightarrow> error + 'a \<Rightarrow> 'a run" where
  "call ev r = ([ev], r)"

text \<open>A run that happens after the events \<open>tr\<close>.\<close>

definition prepend :: "event list \<Rightarrow> 'a run \<Rightarrow> 'a run" where
  "prepend tr m = (tr @ fst m, snd m)"

text \<open>Sequencing: an exception ends the run, nothing catches it.\<close>

definition then_do :: "'a run \<Rightarrow> ('a \<Rightarrow> 'b run) \<Rightarrow> 'b run" where
  "then_do m f =
     (case snd m of
        Inl e \<Rightarrow> (fst m, Inl e)
      | Inr x \<Rightarrow> prepend (fst m) (f x))"

subsection \<open>\<open>model_train_test\<close>\<close>

type_synonym result = "rat \<times> rat \<times> int ndarray \<times> int ndarray"

definition model_train_test ::
  "'m lib \<Rightarrow> rat ndarray \<Rightarrow> int ndarray \<Rightarrow> rat ndarray \<Rightarrow> rat \<Rightarrow> nat \<Rightarrow> result run" where
  "model_train_test L hsi_image gt hsi_image_limited test_size random_state =
     then_do (lift (shape_at hsi_image 0)) (\<lambda>h.
     then_do (lift (shape_at hsi_image 1)) (\<lambda>w.
     then_do (lift (shape_at hsi_image 2)) (\<lambda>n_bands.
     then_do (lift (reshape hsi_image [h * w, n_bands])) (\<lambda>hsi_image_reshaped.
     then_do (call (Call_train_test_split hsi_image_limited (reshape_flat gt)
                      (Some (reshape_flat gt)) test_size (Some random_state))
                   (train_test_split L hsi_image_limited (reshape_flat gt)
                      (Some (reshape_flat gt)) test_size (Some random_state)))
       (\<lambda>(X_train, X_test, y_train, y_test).
     then_do (emit (Print_unique ''Unique classes in train set: '' (np_unique y_train))) (\<lambda>_.
     then_do (emit (Print_unique ''Unique classes in test set: '' (np_unique y_test))) (\<lambda>_.
     let cbc_params = \<lparr>iterations = 1000, learning_rate = 1 / 10, depth = 6,
                        loss_function = ''MultiClass'', eval_metric = ''Accuracy'',
                        random_seed = random_state, task_type = ''GPU'',
                        early_stopping_rounds = 50, custom_metric = [''Accuracy'']\<rparr>;
         start = time_time L Before_fit in
     then_do (call (Call_CatBoost_fit cbc_params X_train y_train (X_test, y_test))
                   (CatBoost_fit L cbc_params X_train y_train (X_test, y_test))) (\<lambda>cbc.
     let total_time = time_time L After_fit - start in
     then_do (call (Call_CatBoost_predict X_test) (CatBoost_predict L cbc X_test)) (\<lambda>y_pred.
     then_do (call (Call_accuracy_score y_test y_pred) (accuracy_score L y_test y_pred)) (\<lambda>acc.
     then_do (emit (Print_accuracy ''Test set accuracy: '' acc)) (\<lambda>_.
     then_do (call (Call_CatBoost_predict hsi_image_reshaped)
                   (CatBoost_predict L cbc hsi_image_reshaped)) (\<lambda>y_pred_full.
     then_do (emit (Print_unique ''Unique classes in full prediction: ''
                      (np_unique y_pred_full))) (\<lambda>_.
     then_do (lift (reshape y_pred_full [h, w])) (\<lambda>classification_map.
     then_do (lift (reshape gt [h, w])) (\<lambda>ground_truth_map.
     then_do (emit (Print_shape ''Shape of classification map: ''
                      (shape classification_map))) (\<lambda>_.
     then_do (emit (Print_shape ''Shape of ground truth map: ''
                      (shape ground_truth_map))) (\<lambda>_.
     then_do (emit (Print_unique ''Unique values in classification map: ''
                      (np_unique classification_map))) (\<lambda>_.
     then_do (emit (Print_unique ''Unique values in ground truth map: ''
                      (np_unique ground_truth_map))) (\<lambda>_.
     then_do (emit (Print_text ''Classification Report:'')) (\<lambda>_.
     then_do (call (Call_classification_report (reshape_flat gt) y_pred_full)
                   (classification_report L (reshape_flat gt) y_pred_full)) (\<lambda>report.
     then_do (emit (Print_text report)) (\<lambda>_.
     then_do (emit (Print_text ''Confusion Matrix:'')) (\<lambda>_.
     then_do (call (Call_confusion_matrix (reshape_flat gt) y_pred_full)
                   (confusion_matrix L (reshape_flat gt) y_pred_full)) (\<lambda>cm.
     then_do (emit (Print_matrix cm)) (\<lambda>_.
     ret (acc, total_time, classification_map, ground_truth_map))))))))))))))))))))))))))"

subsection \<open>\<open>ICA\<close>\<close>

definition ICA :: "'m lib \<Rightarrow> rat ndarray \<Rightarrow> int ndarray \<Rightarrow> int \<Rightarrow> result run" where
  "ICA L hsi_image gt n_components =
     then_do (lift (shape_at hsi_image 0)) (\<lambda>h.
     then_do (lift (shape_at hsi_image 1)) (\<lambda>w.
     then_do (lift (shape_at hsi_image 2)) (\<lambda>n_bands.
     then_do (lift (reshape hsi_image [h * w, n_bands])) (\<lambda>hsi_image_reshaped.
     then_do (call (Call_StandardScaler_fit_transform hsi_image_reshaped)
                   (StandardScaler_fit_transform L hsi_image_reshaped)) (\<lambda>hsi_image_scaled.
     if n_components > int n_bands then
       raise (ValueError ''Number of components exceeds the number of bands in the image.'')
     else
     then_do (call (Call_FastICA_fit_transform n_components (Some 42) hsi_image_scaled)
                   (FastICA_fit_transform L n_components (Some 42) hsi_image_scaled))
       (\<lambda>hsi_image_limited.
     then_do (emit (Print_shape ''Shape of data after ICA reduction: ''
                      (shape hsi_image_limited))) (\<lambda>_.
     then_do (model_train_test L hsi_image gt hsi_image_limited (1 / 5) 42)
       (\<lambda>(acc, total_time, classification_map, ground_truth_map).
     ret (acc, total_time, classification_map, ground_truth_map)))))))))"

subsection \<open>\<open>visualize_classification_map\<close>\<close>

text \<open>
  pyplot is a library like the others: each routine the function calls is a parameter
  that, from the state of pyplot and of the file system, returns the next state or
  raises (\<open>savefig\<close> when the path cannot be written, \<open>imshow\<close> when the data is no
  image). The state type \<open>'s\<close> is left open.
\<close>

record 's pyplot =
  plt_figure :: "nat \<times> nat \<Rightarrow> 's \<Rightarrow> error + 's"
  plt_subplot :: "nat \<Rightarrow> nat \<Rightarrow> nat \<Rightarrow> 's \<Rightarrow> error + 's"
  plt_imshow :: "int ndarray \<Rightarrow> string \<Rightarrow> 's \<Rightarrow> error + 's"
  plt_title :: "string \<Rightarrow> 's \<Rightarrow> error + 's"
  plt_axis :: "string \<Rightarrow> 's \<Rightarrow> error + 's"
  plt_savefig :: "string \<Rightarrow> 's \<Rightarrow> error + 's"

datatype pyvalue = PyNone | PyStr string

text \<open>
  A run over a state: the trace and the error or result as before, and the state the run
  leaves. A call that raises leaves the state as it found it.
\<close>

type_synonym ('s, 'a) prog = "'s \<Rightarrow> 'a run \<times> 's"

definition finish :: "'a \<Rightarrow> ('s, 'a) prog" where
  "finish x st = (([], Inr x), st)"

definition print_line :: "string \<Rightarrow> ('s, unit) prog" where
  "print_line s st = (([Print_text s], Inr ()), st)"

definition plt_call :: "event \<Rightarrow> ('s \<Rightarrow> error + 's) \<Rightarrow> ('s, unit) prog" where
  "plt_call ev f st =
     (case f st of
        Inl e \<Rightarrow> (([ev], Inl e), st)
      | Inr st' \<Rightarrow> (([ev], Inr ()), st'))"

definition after :: "event list \<Rightarrow> 'a run \<times> 's \<Rightarrow> 'a run \<times> 's" where
  "after tr m = (prepend tr (fst m), snd m)"

definition and_then :: "('s, 'a) prog \<Rightarrow> ('a \<Rightarrow> ('s, 'b) prog) \<Rightarrow> ('s, 'b) prog" where
  "and_then m f st =
     (case snd (fst (m st)) of
        Inl e \<Rightarrow> ((fst (fst (m st)), Inl e), snd (m st))
      | Inr x \<Rightarrow> after (fst (fst (m st))) (f x (snd (m st))))"

text \<open>The function has no \<open>return\<close> statement: when it ends, its value is \<open>None\<close>.\<close>

definition visualize_classification_map ::
  "'s pyplot \<Rightarrow> int ndarray \<Rightarrow> int ndarray \<Rightarrow> string \<Rightarrow> ('s, pyvalue) prog" where
  "visualize_classification_map P classification_map ground_truth_map dataset_name =
     and_then (plt_call (Call_plt_figure (10, 5)) (plt_figure P (10, 5))) (\<lambda>_.
     and_then (plt_call (Call_plt_subplot 1 2 1) (plt_subplot P 1 2 1)) (\<lambda>_.
     and_then (plt_call (Call_plt_imshow ground_truth_map ''jet'')
                        (plt_imshow P ground_truth_map ''jet'')) (\<lambda>_.
     and_then (plt_call (Call_plt_title (''Ground Truth - '' @ dataset_name))
                        (plt_title P (''Ground Truth - '' @ dataset_name))) (\<lambda>_.
     and_then (plt_call (Call_plt_axis ''off'') (plt_axis P ''off'')) (\<lambda>_.
     and_then (plt_call (Call_plt_subplot 1 2 2) (plt_subplot P 1 2 2)) (\<lambda>_.
     and_then (plt_call (Call_plt_imshow classification_map ''tab20'')
                        (plt_imshow P classification_map ''tab20'')) (\<lambda>_.
     and_then (plt_call (Call_plt_title (''Classification Map - '' @ dataset_name))
                        (plt_title P (''Classification Map - '' @ dataset_name))) (\<lambda>_.
     and_then (plt_call (Call_plt_axis ''off'') (plt_axis P ''off'')) (\<lambda>_.
     and_then (plt_call
                 (Call_plt_savefig (dataset_name @ ''_classification_vs_ground_truth.png''))
                 (plt_savefig P (dataset_name @ ''_classification_vs_ground_truth.png'')))
       (\<lambda>_.
     and_then (print_line (''Figure saved as '' @ dataset_name
                             @ ''_classification_vs_ground_truth.png'')) (\<lambda>_.
     finish PyNone)))))))))))"

subsection \<open>A small stand-in library and a checkerboard scene, to run the pipeline\<close>

text \<open>
  Stand-ins for the library routines, small enough to evaluate: the scaler halves every
  value, the reduction keeps the leading \<open>n_components\<close> columns, the split takes the
  leading \<open>\<lceil>test_size \<sqdot> n\<rceil>\<close> rows as the test part (on alternating labels that is a
  stratified split), the classifier predicts the integer part of the first feature, and
  accuracy is the share of equal labels.
\<close>

definition demo_scaler :: "rat ndarray \<Rightarrow> error + rat ndarray" where
  "demo_scaler X = Inr (X\<lparr>data := map (\<lambda>x. x / 2) (data X)\<rparr>)"

definition demo_fastica :: "int \<Rightarrow> nat option \<Rightarrow> rat ndarray \<Rightarrow> error + rat ndarray" where
  "demo_fastica n seed X =
     (case shape X of
        [r, c] \<Rightarrow>
          if n < 1 then Inl (ValueError ''n_components must be positive'')
          else Inr \<lparr>shape = [r, nat n], data = concat (map (take (nat n)) (rows2 X))\<rparr>
      | _ \<Rightarrow> Inl (ValueError ''expected 2D array''))"

definition demo_split ::
  "rat ndarray \<Rightarrow> int ndarray \<Rightarrow> int ndarray option \<Rightarrow> rat \<Rightarrow> nat option \<Rightarrow>
   error + (rat ndarray \<times> rat ndarray \<times> int ndarray \<times> int ndarray)" where
  "demo_split X y stratify test_size seed =
     (case shape X of
        [n, k] \<Rightarrow>
          (let t = nat \<lceil>test_size * of_nat n\<rceil> in
           Inr (\<lparr>shape = [n - t, k], data = drop (t * k) (data X)\<rparr>,
                \<lparr>shape = [t, k], data = take (t * k) (data X)\<rparr>,
                \<lparr>shape = [n - t], data = drop t (data y)\<rparr>,
                \<lparr>shape = [t], data = take t (data y)\<rparr>))
      | _ \<Rightarrow> Inl (ValueError ''expected 2D array''))"

definition demo_fit ::
  "cb_params \<Rightarrow> rat ndarray \<Rightarrow> int ndarray \<Rightarrow> rat ndarray \<times> int ndarray \<Rightarrow> error + unit" where
  "demo_fit p X_train y_train eval_set = Inr ()"

definition demo_predict :: "unit \<Rightarrow> rat ndarray \<Rightarrow> error + int ndarray" where
  "demo_predict m X =
     (case shape X of
        [n, k] \<Rightarrow>
          Inr \<lparr>shape = [n, 1],
               data = map (\<lambda>r. case r of [] \<Rightarrow> 0 | x # _ \<Rightarrow> \<lfloor>x\<rfloor>) (rows2 X)\<rparr>
      | _ \<Rightarrow> Inl (ValueError ''expected 2D array''))"

definition demo_accuracy :: "int ndarray \<Rightarrow> int ndarray \<Rightarrow> error + rat" where
  "demo_accuracy y_true y_pred =
     (if length (data y_true) = length (data y_pred) then
        Inr (of_nat (length (filter (\<lambda>(a, b). a = b) (zip (data y_true) (data y_pred))))
             / of_nat (length (data y_true)))
      else Inl (ValueError ''inconsistent numbers of samples''))"

definition demo_report :: "int ndarray \<Rightarrow> int ndarray \<Rightarrow> error + string" where
  "demo_report y_true y_pred = Inr ''report''"

definition demo_confusion :: "int ndarray \<Rightarrow> int ndarray \<Rightarrow> error + int ndarray" where
  "demo_confusion y_true y_pred =
     (let cs = sort (remdups (data y_true @ data y_pred)) in
      Inr \<lparr>shape = [length cs, length cs],
           data = concat (map (\<lambda>a. map (\<lambda>b. int (length (filter (\<lambda>(t, p). t = a \<and> p = b)
                                    (zip (data y_true) (data y_pred))))) cs) cs)\<rparr>)"

definition demo_clock :: "timepoint \<Rightarrow> rat" where
  "demo_clock tp = (case tp of Before_fit \<Rightarrow> 100 | After_fit \<Rightarrow> 103)"

definition demo_lib :: "unit lib" where
  "demo_lib =
     \<lparr>StandardScaler_fit_transform = demo_scaler,
      FastICA_fit_transform = demo_fastica,
      train_test_split = demo_split,
      CatBoost_fit = demo_fit,
      CatBoost_predict = demo_predict,
      accuracy_score = demo_accuracy,
      classification_report = demo_report,
      confusion_matrix = demo_confusion,
      time_time = demo_clock\<rparr>"

text \<open>
  A 2 x 5 scene with 2 bands and checkerboard labels 0 (unlabeled) and 1; the first band
  of a pixel is twice its label, the second is constant.
\<close>

definition demo_cube :: "rat ndarray" where
  "demo_cube =
     \<lparr>shape = [2, 5, 2],
      data = [0, 7, 2, 7, 0, 7, 2, 7, 0, 7, 2, 7, 0, 7, 2, 7, 0, 7, 2, 7]\<rparr>"

definition demo_gt :: "int ndarray" where
  "demo_gt = \<lparr>shape = [2, 5], data = [0, 1, 0, 1, 0, 1, 0, 1, 0, 1]\<rparr>"

text \<open>
  A stand-in pyplot over an explicit state: the open figures, the last one current, each
  a grid of panels, the last one created current; the files stored so far, by path; and
  the directories that exist below the working directory. \<open>imshow\<close> refuses data that
  is not two-dimensional; \<open>savefig\<close> stores the current figure under the path, replacing
  what was there, and refuses a path into a directory that does not exist.
\<close>

record axes =
  img :: "int ndarray option"
  cmap :: string
  title :: string
  axis_on :: bool

record figure =
  figsize :: "nat \<times> nat"
  grid :: "nat \<times> nat"
  panels :: "(nat \<times> axes) list"

record plt_state =
  figures :: "figure list"
  files :: "string \<Rightarrow> figure option"
  dirs :: "string list"

definition new_axes :: axes where
  "new_axes = \<lparr>img = None, cmap = ''viridis'', title = [], axis_on = True\<rparr>"

definition new_figure :: "nat \<times> nat \<Rightarrow> figure" where
  "new_figure sz = \<lparr>figsize = sz, grid = (1, 1), panels = []\<rparr>"

definition gcf :: "plt_state \<Rightarrow> figure" where
  "gcf st = (if figures st = [] then new_figure (6, 4) else last (figures st))"

definition set_gcf :: "figure \<Rightarrow> plt_state \<Rightarrow> plt_state" where
  "set_gcf fig st = st\<lparr>figures := butlast (figures st) @ [fig]\<rparr>"

definition update_gca :: "(axes \<Rightarrow> axes) \<Rightarrow> plt_state \<Rightarrow> plt_state" where
  "update_gca f st =
     (let fig = gcf st in
      if panels fig = [] then set_gcf (fig\<lparr>panels := [(1, f new_axes)]\<rparr>) st
      else (case last (panels fig) of
              (k, ax) \<Rightarrow> set_gcf (fig\<lparr>panels := butlast (panels fig) @ [(k, f ax)]\<rparr>) st))"

definition dirname :: "string \<Rightarrow> string" where
  "dirname path = rev (drop 1 (dropWhile (\<lambda>c. c \<noteq> CHR ''/'') (rev path)))"

definition demo_plt_figure :: "nat \<times> nat \<Rightarrow> plt_state \<Rightarrow> error + plt_state" where
  "demo_plt_figure sz st = Inr (st\<lparr>figures := figures st @ [new_figure sz]\<rparr>)"

definition demo_plt_subplot :: "nat \<Rightarrow> nat \<Rightarrow> nat \<Rightarrow> plt_state \<Rightarrow> error + plt_state" where
  "demo_plt_subplot nrows ncols k st =
     (if k < 1 \<or> nrows * ncols < k then Inl (ValueError ''num must be in 1..nrows*ncols'')
      else
        (let fig = gcf st in
         Inr (set_gcf (fig\<lparr>grid := (nrows, ncols),
                           panels := panels fig @ [(k, new_axes)]\<rparr>) st)))"

definition demo_plt_imshow :: "int ndarray \<Rightarrow> string \<Rightarrow> plt_state \<Rightarrow> error + plt_state" where
  "demo_plt_imshow a cm st =
     (if length (shape a) = 2 then Inr (update_gca (\<lambda>ax. ax\<lparr>img := Some a, cmap := cm\<rparr>) st)
      else Inl (TypeError ''Invalid shape for image data''))"

definition demo_plt_title :: "string \<Rightarrow> plt_state \<Rightarrow> error + plt_state" where
  "demo_plt_title s st = Inr (update_gca (\<lambda>ax. ax\<lparr>title := s\<rparr>) st)"

definition demo_plt_axis :: "string \<Rightarrow> plt_state \<Rightarrow> error + plt_state" where
  "demo_plt_axis opt st =
     (if opt = ''off'' then Inr (update_gca (\<lambda>ax. ax\<lparr>axis_on := False\<rparr>) st)
      else if opt = ''on'' then Inr (update_gca (\<lambda>ax. ax\<lparr>axis_on := True\<rparr>) st)
      else Inl (ValueError ''Unrecognized axis option''))"

definition demo_plt_savefig :: "string \<Rightarrow> plt_state \<Rightarrow> error + plt_state" where
  "demo_plt_savefig path st =
     (if CHR ''/'' \<in> set path \<and> dirname path \<notin> set (dirs st)
      then Inl (FileNotFoundError path)
      else Inr (st\<lparr>files := (files st)(path \<mapsto> gcf st)\<rparr>))"

definition demo_pyplot :: "plt_state pyplot" where
  "demo_pyplot =
     \<lparr>plt_figure = demo_plt_figure,
      plt_subplot = demo_plt_subplot,
      plt_imshow = demo_plt_imshow,
      plt_title = demo_plt_title,
      plt_axis = demo_plt_axis,
      plt_savefig = demo_plt_savefig\<rparr>"

definition demo_plt :: plt_state where
  "demo_plt = \<lparr>figures = [], files = (\<lambda>p. None), dirs = []\<rparr>"

text \<open>
  A second run of the same library: every seeded call and the scaler behave as before,
  an unseeded split draws from the global generator (here: it is refused), and the clock
  reads differently.
\<close>

definition demo_lib_rerun :: "unit lib" where
  "demo_lib_rerun =
     demo_lib
       \<lparr>train_test_split :=
          (\<lambda>X y stratify test_size seed.
             case seed of
               None \<Rightarrow> Inl (LibraryError ''unseeded'')
             | Some s \<Rightarrow> demo_split X y stratify test_size seed),
        time_time := (\<lambda>tp. case tp of Before_fit \<Rightarrow> 200 | After_fit \<Rightarrow> 207)\<rparr>"

subsection \<open>Observations on a trace\<close>

text \<open>
  The calls that carry the reduction and the split: \<open>FastICA.fit_transform\<close> with its
  input and seed, \<open>train_test_split\<close>, whose first argument is the reduced table, and
  \<open>CatBoost.fit\<close>, whose arguments are the four parts of the split.
\<close>

fun carries_reduction_or_split :: "event \<Rightarrow> bool" where
  "carries_reduction_or_split (Call_FastICA_fit_transform n seed X) = True"
| "carries_reduction_or_split (Call_train_test_split X y stratify test_size seed) = True"
| "carries_reduction_or_split (Call_CatBoost_fit p X_train y_train eval_set) = True"
| "carries_reduction_or_split e = False"

definition reduction_and_split :: "event list \<Rightarrow> event list" where
  "reduction_and_split tr = filter carries_reduction_or_split tr"

section \<open>Properties\<close>

subsection \<open>Runs\<close>

lemma prepend_pair [simp]: "prepend tr (tr', r) = (tr @ tr', r)"
  by (simp add: prepend_def)

lemma prepend_Nil [simp]: "prepend [] m = m"
  by (simp add: prepend_def)

lemma prepend_prepend [simp]: "prepend tr (prepend tr' m) = prepend (tr @ tr') m"
  by (simp add: prepend_def)

lemma run_prepend [simp]: "fst (prepend tr m) = tr @ fst m" "snd (prepend tr m) = snd m"
  by (simp_all add: prepend_def)

lemma run_ret [simp]: "fst (ret x) = []" "snd (ret x) = Inr x"
  by (simp_all add: ret_def)

lemma run_raise [simp]: "fst (raise e) = []" "snd (raise e) = Inl e"
  by (simp_all add: raise_def)

lemma run_lift [simp]: "fst (lift r) = []" "snd (lift r) = r"
  by (simp_all add: lift_def)

lemma run_call [simp]: "fst (call ev r) = [ev]" "snd (call ev r) = r"
  by (simp_all add: call_def)

lemma run_emit [simp]: "fst (emit ev) = [ev]" "snd (emit ev) = Inr ()"
  by (simp_all add: emit_def)

lemma prepend_ret [simp]: "prepend tr (ret x) = (tr, Inr x)"
  by (simp add: prepend_def)

lemma prepend_raise [simp]: "prepend tr (raise e) = (tr, Inl e)"
  by (simp add: prepend_def)

lemma then_do_lift_Inl [simp]: "then_do (lift (Inl e)) f = ([], Inl e)"
  by (simp add: then_do_def)

lemma then_do_lift_Inr [simp]: "then_do (lift (Inr x)) f = f x"
  by (simp add: then_do_def)

lemma then_do_call_Inl [simp]: "then_do (call ev (Inl e)) f = ([ev], Inl e)"
  by (simp add: then_do_def)

lemma then_do_call_Inr [simp]: "then_do (call ev (Inr x)) f = prepend [ev] (f x)"
  by (simp add: then_do_def)

lemma then_do_emit [simp]: "then_do (emit ev) f = prepend [ev] (f ())"
  by (simp add: then_do_def)

lemma then_do_raise [simp]: "then_do (raise e) f = ([], Inl e)"
  by (simp add: then_do_def)

lemma then_do_pair_Inr [simp]: "then_do (tr, Inr x) f = prepend tr (f x)"
  by (simp add: then_do_def)

lemma then_do_pair_Inl [simp]: "then_do (tr, Inl e) f = (tr, Inl e)"
  by (simp add: then_do_def)

lemma fst_then_do:
  "fst (then_do m f) = fst m @ (case snd m of Inl e \<Rightarrow> [] | Inr x \<Rightarrow> fst (f x))"
  by (simp add: then_do_def split: sum.splits)

lemma snd_then_do:
  "snd (then_do m f) = (case snd m of Inl e \<Rightarrow> Inl e | Inr x \<Rightarrow> snd (f x))"
  by (simp add: then_do_def split: sum.splits)

lemma snd_then_do_Inr:
  "snd (then_do m f) = Inr y \<longleftrightarrow> (\<exists>x. snd m = Inr x \<and> snd (f x) = Inr y)"
  by (auto simp: then_do_def split: sum.splits)

lemma model_train_test_run:
  assumes "shape_at cube 0 = Inr h" "shape_at cube 1 = Inr w" "shape_at cube 2 = Inr b"
    and "reshape cube [h * w, b] = Inr raw"
    and "train_test_split L red (reshape_flat gt) (Some (reshape_flat gt)) ts (Some rs)
        = Inr (X_train, X_test, y_train, y_test)"
    and "CatBoost_fit L
         \<lparr>iterations = 1000, learning_rate = 1 / 10, depth = 6,
          loss_function = ''MultiClass'', eval_metric = ''Accuracy'',
          random_seed = rs, task_type = ''GPU'',
          early_stopping_rounds = 50, custom_metric = [''Accuracy'']\<rparr>
         X_train y_train (X_test, y_test) = Inr cbc"
    and "CatBoost_predict L cbc X_test = Inr y_pred"
    and "accuracy_score L y_test y_pred = Inr acc"
    and "CatBoost_predict L cbc raw = Inr y_pred_full"
    and "reshape y_pred_full [h, w] = Inr cl_map"
    and "reshape gt [h, w] = Inr gt_map"
    and "classification_report L (reshape_flat gt) y_pred_full = Inr report"
    and "confusion_matrix L (reshape_flat gt) y_pred_full = Inr cm"
  shows "model_train_test L cube gt red ts rs =
       ([Call_train_test_split red (reshape_flat gt) (Some (reshape_flat gt)) ts (Some rs),
         Print_unique ''Unique classes in train set: '' (np_unique y_train),
         Print_unique ''Unique classes in test set: '' (np_unique y_test),
         Call_CatBoost_fit
           \<lparr>iterations = 1000, learning_rate = 1 / 10, depth = 6,
            loss_function = ''MultiClass'', eval_metric = ''Accuracy'',
            random_seed = rs, task_type = ''GPU'',
            early_stopping_rounds = 50, custom_metric = [''Accuracy'']\<rparr>
           X_train y_train (X_test, y_test),
         Call_CatBoost_predict X_test,
         Call_accuracy_score y_test y_pred,
         Print_accuracy ''Test set accuracy: '' acc,
         Call_CatBoost_predict raw,
         Print_unique ''Unique classes in full prediction: '' (np_unique y_pred_full),
         Print_shape ''Shape of classification map: '' (shape cl_map),
         Print_shape ''Shape of ground truth map: '' (shape gt_map),
         Print_unique ''Unique values in classification map: '' (np_unique cl_map),
         Print_unique ''Unique values in ground truth map: '' (np_unique gt_map),
         Print_text ''Classification Report:'',
         Call_classification_report (reshape_flat gt) y_pred_full,
         Print_text report,
         Print_text ''Confusion Matrix:'',
         Call_confusion_matrix (reshape_flat gt) y_pred_full,
         Print_matrix cm],
        Inr (acc, time_time L After_fit - time_time L Before_fit, cl_map, gt_map))"
  unfolding model_train_test_def Let_def
  by (simp add: assms del: One_nat_def)

lemma model_train_test_Inr_calls:
  assumes "snd (model_train_test L cube gt red ts rs) = Inr res"
  shows "\<exists>h w b raw X_train X_test y_train y_test cbc y_pred acc y_pred_full cl_map gt_map report cm.
    shape_at cube 0 = Inr h \<and> shape_at cube 1 = Inr w \<and> shape_at cube 2 = Inr b
    \<and> reshape cube [h * w, b] = Inr raw
    \<and> train_test_split L red (reshape_flat gt) (Some (reshape_flat gt)) ts (Some rs)
        = Inr (X_train, X_test, y_train, y_test)
    \<and> CatBoost_fit L
         \<lparr>iterations = 1000, learning_rate = 1 / 10, depth = 6,
          loss_function = ''MultiClass'', eval_metric = ''Accuracy'',
          random_seed = rs, task_type = ''GPU'',
          early_stopping_rounds = 50, custom_metric = [''Accuracy'']\<rparr>
         X_train y_train (X_test, y_test) = Inr cbc
    \<and> CatBoost_predict L cbc X_test = Inr y_pred
    \<and> accuracy_score L y_test y_pred = Inr acc
    \<and> CatBoost_predict L cbc raw = Inr y_pred_full
    \<and> reshape y_pred_full [h, w] = Inr cl_map
    \<and> reshape gt [h, w] = Inr gt_map
    \<and> classification_report L (reshape_flat gt) y_pred_full = Inr report
    \<and> confusion_matrix L (reshape_flat gt) y_pred_full = Inr cm"
  using assms unfolding model_train_test_def Let_def
  by (auto simp: snd_then_do_Inr simp del: One_nat_def split: prod.splits)


lemma then_do_ret [simp]: "then_do m ret = m"
  by (cases m) (auto simp: then_do_def ret_def split: sum.splits)

lemma ICA_run:
  assumes "shape_at cube 0 = Inr h" "shape_at cube 1 = Inr w" "shape_at cube 2 = Inr b"
    and "reshape cube [h * w, b] = Inr raw"
    and "StandardScaler_fit_transform L raw = Inr scaled"
    and "n \<le> int b"
    and "FastICA_fit_transform L n (Some 42) scaled = Inr red"
  shows "ICA L cube gt n =
     prepend [Call_StandardScaler_fit_transform raw,
              Call_FastICA_fit_transform n (Some 42) scaled,
              Print_shape ''Shape of data after ICA reduction: '' (shape red)]
       (model_train_test L cube gt red (1 / 5) 42)"
  unfolding ICA_def using assms by (simp del: One_nat_def)

lemma ICA_Inr_calls:
  assumes "snd (ICA L cube gt n) = Inr res"
  shows "\<exists>h w b raw scaled red.
    shape_at cube 0 = Inr h \<and> shape_at cube 1 = Inr w \<and> shape_at cube 2 = Inr b
    \<and> reshape cube [h * w, b] = Inr raw
    \<and> StandardScaler_fit_transform L raw = Inr scaled
    \<and> n \<le> int b
    \<and> FastICA_fit_transform L n (Some 42) scaled = Inr red
    \<and> snd (model_train_test L cube gt red (1 / 5) 42) = Inr res"
  using assms unfolding ICA_def
  by (auto simp: snd_then_do_Inr simp del: One_nat_def split: if_splits)

lemma model_train_test_fit_events:
  assumes "Call_CatBoost_fit p X_train y_train eval_set
             \<in> set (fst (model_train_test L cube gt red ts rs))"
  shows "p = \<lparr>iterations = 1000, learning_rate = 1 / 10, depth = 6,
              loss_function = ''MultiClass'', eval_metric = ''Accuracy'',
              random_seed = rs, task_type = ''GPU'',
              early_stopping_rounds = 50, custom_metric = [''Accuracy'']\<rparr>
       \<and> Call_train_test_split red (reshape_flat gt) (Some (reshape_flat gt)) ts (Some rs)
             \<in> set (fst (model_train_test L cube gt red ts rs))
       \<and> (\<exists>X_test y_test.
            train_test_split L red (reshape_flat gt) (Some (reshape_flat gt)) ts (Some rs)
              = Inr (X_train, X_test, y_train, y_test)
            \<and> eval_set = (X_test, y_test))"
  using assms unfolding model_train_test_def Let_def
  by (auto simp: fst_then_do simp del: One_nat_def split: sum.splits prod.splits)

lemma ICA_fit_events:
  assumes "Call_CatBoost_fit p X_train y_train eval_set \<in> set (fst (ICA L cube gt n))"
  shows "\<exists>scaled red. FastICA_fit_transform L n (Some 42) scaled = Inr red
      \<and> Call_CatBoost_fit p X_train y_train eval_set
             \<in> set (fst (model_train_test L cube gt red (1 / 5) 42))"
  using assms unfolding ICA_def
  by (auto simp: fst_then_do simp del: One_nat_def split: sum.splits prod.splits if_splits)
    metis

lemma ICA_Inr:
  assumes "ICA L cube gt n = (tr, Inr res)"
  shows "\<exists>h w b raw scaled red X_train X_test y_train y_test cbc y_pred acc y_pred_full
           cl_map gt_map report cm.
    shape_at cube 0 = Inr h \<and> shape_at cube 1 = Inr w \<and> shape_at cube 2 = Inr b
    \<and> reshape cube [h * w, b] = Inr raw
    \<and> StandardScaler_fit_transform L raw = Inr scaled
    \<and> n \<le> int b
    \<and> FastICA_fit_transform L n (Some 42) scaled = Inr red
    \<and> train_test_split L red (reshape_flat gt) (Some (reshape_flat gt)) (1 / 5) (Some 42)
        = Inr (X_train, X_test, y_train, y_test)
    \<and> CatBoost_fit L
         \<lparr>iterations = 1000, learning_rate = 1 / 10, depth = 6,
          loss_function = ''MultiClass'', eval_metric = ''Accuracy'',
          random_seed = 42, task_type = ''GPU'',
          early_stopping_rounds = 50, custom_metric = [''Accuracy'']\<rparr>
         X_train y_train (X_test, y_test) = Inr cbc
    \<and> CatBoost_predict L cbc X_test = Inr y_pred
    \<and> accuracy_score L y_test y_pred = Inr acc
    \<and> CatBoost_predict L cbc raw = Inr y_pred_full
    \<and> reshape y_pred_full [h, w] = Inr cl_map
    \<and> reshape gt [h, w] = Inr gt_map
    \<and> classification_report L (reshape_flat gt) y_pred_full = Inr report
    \<and> confusion_matrix L (reshape_flat gt) y_pred_full = Inr cm
    \<and> res = (acc, time_time L After_fit - time_time L Before_fit, cl_map, gt_map)
    \<and> tr =
        [Call_StandardScaler_fit_transform raw,
         Call_FastICA_fit_transform n (Some 42) scaled,
         Print_shape ''Shape of data after ICA reduction: '' (shape red),
         Call_train_test_split red (reshape_flat gt) (Some (reshape_flat gt)) (1 / 5) (Some 42),
         Print_unique ''Unique classes in train set: '' (np_unique y_train),
         Print_unique ''Unique classes in test set: '' (np_unique y_test),
         Call_CatBoost_fit
           \<lparr>iterations = 1000, learning_rate = 1 / 10, depth = 6,
            loss_function = ''MultiClass'', eval_metric = ''Accuracy'',
            random_seed = 42, task_type = ''GPU'',
            early_stopping_rounds = 50, custom_metric = [''Accuracy'']\<rparr>
           X_train y_train (X_test, y_test),
         Call_CatBoost_predict X_test,
         Call_accuracy_score y_test y_pred,
         Print_accuracy ''Test set accuracy: '' acc,
         Call_CatBoost_predict raw,
         Print_unique ''Unique classes in full prediction: '' (np_unique y_pred_full),
         Print_shape ''Shape of classification map: '' (shape cl_map),
         Print_shape ''Shape of ground truth map: '' (shape gt_map),
         Print_unique ''Unique values in classification map: '' (np_unique cl_map),
         Print_unique ''Unique values in ground truth map: '' (np_unique gt_map),
         Print_text ''Classification Report:'',
         Call_classification_report (reshape_flat gt) y_pred_full,
         Print_text report,
         Print_text ''Confusion Matrix:'',
         Call_confusion_matrix (reshape_flat gt) y_pred_full,
         Print_matrix cm]"
proof -
  from assms have ok: "snd (ICA L cube gt n) = Inr res"
    by simp
  from ICA_Inr_calls [OF ok] obtain h w b raw scaled red where
    ica: "shape_at cube 0 = Inr h" "shape_at cube 1 = Inr w" "shape_at cube 2 = Inr b"
      "reshape cube [h * w, b] = Inr raw"
      "StandardScaler_fit_transform L raw = Inr scaled" "n \<le> int b"
      "FastICA_fit_transform L n (Some 42) scaled = Inr red"
    and mtt: "snd (model_train_test L cube gt red (1 / 5) 42) = Inr res"
    by blast
  from model_train_test_Inr_calls [OF mtt] obtain h' w' b' raw' X_train X_test y_train y_test
      cbc y_pred acc y_pred_full cl_map gt_map report cm where
    calls: "shape_at cube 0 = Inr h'" "shape_at cube 1 = Inr w'" "shape_at cube 2 = Inr b'"
      "reshape cube [h' * w', b'] = Inr raw'"
      "train_test_split L red (reshape_flat gt) (Some (reshape_flat gt)) (1 / 5) (Some 42)
        = Inr (X_train, X_test, y_train, y_test)"
      "CatBoost_fit L
         \<lparr>iterations = 1000, learning_rate = 1 / 10, depth = 6,
          loss_function = ''MultiClass'', eval_metric = ''Accuracy'',
          random_seed = 42, task_type = ''GPU'',
          early_stopping_rounds = 50, custom_metric = [''Accuracy'']\<rparr>
         X_train y_train (X_test, y_test) = Inr cbc"
      "CatBoost_predict L cbc X_test = Inr y_pred"
      "accuracy_score L y_test y_pred = Inr acc"
      "CatBoost_predict L cbc raw' = Inr y_pred_full"
      "reshape y_pred_full [h', w'] = Inr cl_map"
      "reshape gt [h', w'] = Inr gt_map"
      "classification_report L (reshape_flat gt) y_pred_full = Inr report"
      "confusion_matrix L (reshape_flat gt) y_pred_full = Inr cm"
    by blast
  from ica calls have same: "h' = h" "w' = w" "b' = b" "raw' = raw"
    by simp_all
  note run = model_train_test_run [OF calls]
  have "ICA L cube gt n =
     prepend [Call_StandardScaler_fit_transform raw,
              Call_FastICA_fit_transform n (Some 42) scaled,
              Print_shape ''Shape of data after ICA reduction: '' (shape red)]
       (model_train_test L cube gt red (1 / 5) 42)"
    by (rule ICA_run [OF ica])
  with assms run have tr: "tr = [Call_StandardScaler_fit_transform raw,
              Call_FastICA_fit_transform n (Some 42) scaled,
              Print_shape ''Shape of data after ICA reduction: '' (shape red)]
              @ fst (model_train_test L cube gt red (1 / 5) 42)"
    and res: "Inr res = snd (model_train_test L cube gt red (1 / 5) 42)"
    by (simp_all add: prepend_def)
  from res run have res': "res = (acc, time_time L After_fit - time_time L Before_fit, cl_map, gt_map)"
    by simp
  from tr run have tr': "tr = [Call_StandardScaler_fit_transform raw,
         Call_FastICA_fit_transform n (Some 42) scaled,
         Print_shape ''Shape of data after ICA reduction: '' (shape red),
         Call_train_test_split red (reshape_flat gt) (Some (reshape_flat gt)) (1 / 5) (Some 42),
         Print_unique ''Unique classes in train set: '' (np_unique y_train),
         Print_unique ''Unique classes in test set: '' (np_unique y_test),
         Call_CatBoost_fit
           \<lparr>iterations = 1000, learning_rate = 1 / 10, depth = 6,
            loss_function = ''MultiClass'', eval_metric = ''Accuracy'',
            random_seed = 42, task_type = ''GPU'',
            early_stopping_rounds = 50, custom_metric = [''Accuracy'']\<rparr>
           X_train y_train (X_test, y_test),
         Call_CatBoost_predict X_test,
         Call_accuracy_score y_test y_pred,
         Print_accuracy ''Test set accuracy: '' acc,
         Call_CatBoost_predict raw,
         Print_unique ''Unique classes in full prediction: '' (np_unique y_pred_full),
         Print_shape ''Shape of classification map: '' (shape cl_map),
         Print_shape ''Shape of ground truth map: '' (shape gt_map),
         Print_unique ''Unique values in classification map: '' (np_unique cl_map),
         Print_unique ''Unique values in ground truth map: '' (np_unique gt_map),
         Print_text ''Classification Report:'',
         Call_classification_report (reshape_flat gt) y_pred_full,
         Print_text report,
         Print_text ''Confusion Matrix:'',
         Call_confusion_matrix (reshape_flat gt) y_pred_full,
         Print_matrix cm]"
    by (simp add: same)
  from ica calls res' tr' show ?thesis
    unfolding same by blast
qed

lemma ICA_InrE [consumes 1, case_names run]:
  assumes "ICA L cube gt n = (tr, Inr res)"
  obtains h w b raw scaled red X_train X_test y_train y_test cbc y_pred acc y_pred_full cl_map gt_map report cm
  where "shape_at cube 0 = Inr h"
    and "shape_at cube 1 = Inr w"
    and "shape_at cube 2 = Inr b"
    and "reshape cube [h * w, b] = Inr raw"
    and "StandardScaler_fit_transform L raw = Inr scaled"
    and "n \<le> int b"
    and "FastICA_fit_transform L n (Some 42) scaled = Inr red"
    and "train_test_split L red (reshape_flat gt) (Some (reshape_flat gt)) (1 / 5) (Some 42)
        = Inr (X_train, X_test, y_train, y_test)"
    and "CatBoost_fit L
         \<lparr>iterations = 1000, learning_rate = 1 / 10, depth = 6,
          loss_function = ''MultiClass'', eval_metric = ''Accuracy'',
          random_seed = 42, task_type = ''GPU'',
          early_stopping_rounds = 50, custom_metric = [''Accuracy'']\<rparr>
         X_train y_train (X_test, y_test) = Inr cbc"
    and "CatBoost_predict L cbc X_test = Inr y_pred"
    and "accuracy_score L y_test y_pred = Inr acc"
    and "CatBoost_predict L cbc raw = Inr y_pred_full"
    and "reshape y_pred_full [h, w] = Inr cl_map"
    and "reshape gt [h, w] = Inr gt_map"
    and "classification_report L (reshape_flat gt) y_pred_full = Inr report"
    and "confusion_matrix L (reshape_flat gt) y_pred_full = Inr cm"
    and "res = (acc, time_time L After_fit - time_time L Before_fit, cl_map, gt_map)"
    and "tr =
        [Call_StandardScaler_fit_transform raw,
         Call_FastICA_fit_transform n (Some 42) scaled,
         Print_shape ''Shape of data after ICA reduction: '' (shape red),
         Call_train_test_split red (reshape_flat gt) (Some (reshape_flat gt)) (1 / 5) (Some 42),
         Print_unique ''Unique classes in train set: '' (np_unique y_train),
         Print_unique ''Unique classes in test set: '' (np_unique y_test),
         Call_CatBoost_fit
           \<lparr>iterations = 1000, learning_rate = 1 / 10, depth = 6,
            loss_function = ''MultiClass'', eval_metric = ''Accuracy'',
            random_seed = 42, task_type = ''GPU'',
            early_stopping_rounds = 50, custom_metric = [''Accuracy'']\<rparr>
           X_train y_train (X_test, y_test),
         Call_CatBoost_predict X_test,
         Call_accuracy_score y_test y_pred,
         Print_accuracy ''Test set accuracy: '' acc,
         Call_CatBoost_predict raw,
         Print_unique ''Unique classes in full prediction: '' (np_unique y_pred_full),
         Print_shape ''Shape of classification map: '' (shape cl_map),
         Print_shape ''Shape of ground truth map: '' (shape gt_map),
         Print_unique ''Unique values in classification map: '' (np_unique cl_map),
         Print_unique ''Unique values in ground truth map: '' (np_unique gt_map),
         Print_text ''Classification Report:'',
         Call_classification_report (reshape_flat gt) y_pred_full,
         Print_text report,
         Print_text ''Confusion Matrix:'',
         Call_confusion_matrix (reshape_flat gt) y_pred_full,
         Print_matrix cm]"
  using ICA_Inr [OF assms] by blast

subsection \<open>The checkerboard scene, run\<close>

lemma demo_run:
  "ICA demo_lib demo_cube demo_gt 1 = 
  ([Call_StandardScaler_fit_transform
    \<lparr>shape = [10, 2],
       data = [0, 7, 2, 7, 0, 7, 2, 7, 0, 7, 2, 7, 0, 7, 2, 7, 0, 7, 2, 7]\<rparr>,
   Call_FastICA_fit_transform 1 (Some 42)
    \<lparr>shape = [10, 2],
       data =
         [0, 7 / 2, 1, 7 / 2, 0, 7 / 2, 1, 7 / 2, 0, 7 / 2, 1, 7 / 2, 0,
          7 / 2, 1, 7 / 2, 0, 7 / 2, 1, 7 / 2]\<rparr>,
   Print_shape ''Shape of data after ICA reduction: '' [10, 1],
   Call_train_test_split
    \<lparr>shape = [10, 1], data = [0, 1, 0, 1, 0, 1, 0, 1, 0, 1]\<rparr>
    \<lparr>shape = [10], data = [0, 1, 0, 1, 0, 1, 0, 1, 0, 1]\<rparr>
    (Some \<lparr>shape = [10], data = [0, 1, 0, 1, 0, 1, 0, 1, 0, 1]\<rparr>) (1 / 5)
    (Some 42),
   Print_unique ''Unique classes in train set: '' [0, 1],
   Print_unique ''Unique classes in test set: '' [0, 1],
   Call_CatBoost_fit
    \<lparr>iterations = 1000, learning_rate = 1 / 10, depth = 6,
       loss_function = ''MultiClass'', eval_metric = ''Accuracy'',
       random_seed = 42, task_type = ''GPU'', early_stopping_rounds = 50,
       custom_metric = [''Accuracy'']\<rparr>
    \<lparr>shape = [8, 1], data = [0, 1, 0, 1, 0, 1, 0, 1]\<rparr>
    \<lparr>shape = [8], data = [0, 1, 0, 1, 0, 1, 0, 1]\<rparr>
    (\<lparr>shape = [2, 1], data = [0, 1]\<rparr>, \<lparr>shape = [2], data = [0, 1]\<rparr>),
   Call_CatBoost_predict \<lparr>shape = [2, 1], data = [0, 1]\<rparr>,
   Call_accuracy_score \<lparr>shape = [2], data = [0, 1]\<rparr>
    \<lparr>shape = [2, 1], data = [0, 1]\<rparr>,
   Print_accuracy ''Test set accuracy: '' 1,
   Call_CatBoost_predict
    \<lparr>shape = [10, 2],
       data = [0, 7, 2, 7, 0, 7, 2, 7, 0, 7, 2, 7, 0, 7, 2, 7, 0, 7, 2, 7]\<rparr>,
   Print_unique ''Unique classes in full prediction: '' [0, 2],
   Print_shape ''Shape of classification map: '' [2, 5],
   Print_shape ''Shape of ground truth map: '' [2, 5],
   Print_unique ''Unique values in classification map: '' [0, 2],
   Print_unique ''Unique values in ground truth map: '' [0, 1],
   Print_text ''Classification Report:'',
   Call_classification_report
    \<lparr>shape = [10], data = [0, 1, 0, 1, 0, 1, 0, 1, 0, 1]\<rparr>
    \<lparr>shape = [10, 1], data = [0, 2, 0, 2, 0, 2, 0, 2, 0, 2]\<rparr>,
   Print_text ''report'', Print_text ''Confusion Matrix:'',
   Call_confusion_matrix
    \<lparr>shape = [10], data = [0, 1, 0, 1, 0, 1, 0, 1, 0, 1]\<rparr>
    \<lparr>shape = [10, 1], data = [0, 2, 0, 2, 0, 2, 0, 2, 0, 2]\<rparr>,
   Print_matrix \<lparr>shape = [3, 3], data = [5, 0, 0, 0, 0, 5, 0, 0, 0]\<rparr>],
  Inr (1, 3, \<lparr>shape = [2, 5], data = [0, 2, 0, 2, 0, 2, 0, 2, 0, 2]\<rparr>,
       \<lparr>shape = [2, 5], data = [0, 1, 0, 1, 0, 1, 0, 1, 0, 1]\<rparr>))"
  by code_simp

lemma demo_predict_reduced:
  "demo_predict () \<lparr>shape = [10, 1], data = [0, 1, 0, 1, 0, 1, 0, 1, 0, 1]\<rparr>
       = Inr \<lparr>shape = [10, 1], data = [0, 1, 0, 1, 0, 1, 0, 1, 0, 1]\<rparr>"
  by code_simp

subsection \<open>The full-map prediction\<close>

text \<open>
  C1. The claim: the full-cube prediction behind the classification map, the report and
  the confusion matrix is the trained model applied to the whole reduced table. The
  code applies it to \<open>hsi_image_reshaped\<close>, the flattened raw cube. On the checkerboard
  scene the split receives the reduced table (one column, equal to the labels), the
  second \<open>predict\<close> receives the raw 10 x 2 table and never the reduced one, and the
  returned map holds 0 and 2 where the model applied to the reduced table gives the
  labels 0 and 1.
\<close>

theorem C1_full_map_predicted_from_raw_bands:
  "snd (ICA demo_lib demo_cube demo_gt 1)
     = Inr (1, 3, \<lparr>shape = [2, 5], data = [0, 2, 0, 2, 0, 2, 0, 2, 0, 2]\<rparr>, demo_gt)
   \<and> Call_train_test_split \<lparr>shape = [10, 1], data = [0, 1, 0, 1, 0, 1, 0, 1, 0, 1]\<rparr>
         (reshape_flat demo_gt) (Some (reshape_flat demo_gt)) (1 / 5) (Some 42)
       \<in> set (fst (ICA demo_lib demo_cube demo_gt 1))
   \<and> Call_CatBoost_predict (demo_cube\<lparr>shape := [10, 2]\<rparr>)
       \<in> set (fst (ICA demo_lib demo_cube demo_gt 1))
   \<and> Call_CatBoost_predict \<lparr>shape = [10, 1], data = [0, 1, 0, 1, 0, 1, 0, 1, 0, 1]\<rparr>
       \<notin> set (fst (ICA demo_lib demo_cube demo_gt 1))
   \<and> demo_predict () \<lparr>shape = [10, 1], data = [0, 1, 0, 1, 0, 1, 0, 1, 0, 1]\<rparr>
       = Inr \<lparr>shape = [10, 1], data = [0, 1, 0, 1, 0, 1, 0, 1, 0, 1]\<rparr>"
  using demo_predict_reduced unfolding demo_run
  by (simp add: demo_gt_def demo_cube_def reshape_flat_def nd_size_def)

subsection \<open>The component-count check\<close>

text \<open>
  C2, as stated: for \<open>n_components > n_bands\<close> the check rejects the input before any
  other computation, standardization included. In the code the check stands after
  \<open>scaler.fit_transform\<close>: with 20 components on the 2-band scene the run ends with the
  ValueError, and the standardization has been called.
\<close>

theorem C2_counterexample:
  "ICA demo_lib demo_cube demo_gt 20
     = ([Call_StandardScaler_fit_transform (demo_cube\<lparr>shape := [10, 2]\<rparr>)],
        Inl (ValueError ''Number of components exceeds the number of bands in the image.''))"
  by code_simp

text \<open>
  C2, amended: for a cube of shape (h, w, b) and \<open>n_components > b\<close>, \<open>ICA\<close> ends with an
  error after exactly one library call, the standardization of the flattened cube. The
  error is the ValueError of the check unless the standardization itself raised; the
  ICA fit, the split and the classifier are never called.
\<close>

theorem C2_validation_error_after_standardization:
  assumes "shape cube = [h, w, b]" and "int b < n"
  shows "ICA L cube gt n =
     ([Call_StandardScaler_fit_transform (cube\<lparr>shape := [h * w, b]\<rparr>)],
      Inl (case StandardScaler_fit_transform L (cube\<lparr>shape := [h * w, b]\<rparr>) of
             Inl e \<Rightarrow> e
           | Inr scaled \<Rightarrow>
               ValueError ''Number of components exceeds the number of bands in the image.''))"
proof -
  from assms(1) have dims: "shape_at cube 0 = Inr h" "shape_at cube 1 = Inr w"
      "shape_at cube 2 = Inr b"
    and flat: "reshape cube [h * w, b] = Inr (cube\<lparr>shape := [h * w, b]\<rparr>)"
    by (simp_all add: shape_at_def reshape_def nd_size_def)
  show ?thesis
  proof (cases "StandardScaler_fit_transform L (cube\<lparr>shape := [h * w, b]\<rparr>)")
    case (Inl e)
    with dims flat show ?thesis
      unfolding ICA_def by (simp del: One_nat_def)
  next
    case (Inr scaled)
    with dims flat assms(2) show ?thesis
      unfolding ICA_def by (simp del: One_nat_def)
  qed
qed

theorem C2_validation_error_after_standardization_witness:
  "ICA demo_lib demo_cube demo_gt 20 =
     ([Call_StandardScaler_fit_transform (demo_cube\<lparr>shape := [2 * 5, 2]\<rparr>)],
      Inl (ValueError ''Number of components exceeds the number of bands in the image.''))"
proof -
  have sh: "shape demo_cube = [2, 5, 2]"
    by (simp add: demo_cube_def)
  have n: "int 2 < 20"
    by simp
  have ok: "StandardScaler_fit_transform demo_lib X = Inr (X\<lparr>data := map (\<lambda>x. x / 2) (data X)\<rparr>)"
    for X
    by (simp add: demo_lib_def demo_scaler_def)
  from C2_validation_error_after_standardization [OF sh n, of demo_lib demo_gt]
  show ?thesis
    by (simp add: ok)
qed

subsection \<open>The classifier's configuration and validation set\<close>

text \<open>
  C3. In every run, whatever its outcome, a call of \<open>CatBoost.fit\<close> has the fixed
  configuration (1000 iterations, learning rate 0.1, depth 6, \<open>MultiClass\<close> loss,
  \<open>Accuracy\<close> as evaluation metric, early stopping after 50 rounds, seed 42, GPU), trains
  on the train part of the stratified split of the reduced table (test size 0.2, seed
  42) and validates on exactly the test part of that split. Every run that returns has
  made such a call.
\<close>

theorem C3_fit_configuration_and_validation_set:
  "(\<forall>p X_train y_train eval_set.
      Call_CatBoost_fit p X_train y_train eval_set \<in> set (fst (ICA L cube gt n)) \<longrightarrow>
      p = \<lparr>iterations = 1000, learning_rate = 1 / 10, depth = 6,
           loss_function = ''MultiClass'', eval_metric = ''Accuracy'',
           random_seed = 42, task_type = ''GPU'',
           early_stopping_rounds = 50, custom_metric = [''Accuracy'']\<rparr>
      \<and> (\<exists>scaled red X_test y_test.
            FastICA_fit_transform L n (Some 42) scaled = Inr red
            \<and> train_test_split L red (reshape_flat gt) (Some (reshape_flat gt)) (1 / 5) (Some 42)
                = Inr (X_train, X_test, y_train, y_test)
            \<and> eval_set = (X_test, y_test)))
   \<and> (\<forall>res. snd (ICA L cube gt n) = Inr res \<longrightarrow>
        (\<exists>X_train y_train eval_set.
           Call_CatBoost_fit
             \<lparr>iterations = 1000, learning_rate = 1 / 10, depth = 6,
              loss_function = ''MultiClass'', eval_metric = ''Accuracy'',
              random_seed = 42, task_type = ''GPU'',
              early_stopping_rounds = 50, custom_metric = [''Accuracy'']\<rparr>
             X_train y_train eval_set \<in> set (fst (ICA L cube gt n))))"
proof (intro conjI allI impI)
  fix p X_train y_train eval_set
  assume fit: "Call_CatBoost_fit p X_train y_train eval_set \<in> set (fst (ICA L cube gt n))"
  from ICA_fit_events [OF fit] obtain scaled red where
    red: "FastICA_fit_transform L n (Some 42) scaled = Inr red"
    and inner: "Call_CatBoost_fit p X_train y_train eval_set
                  \<in> set (fst (model_train_test L cube gt red (1 / 5) 42))"
    by blast
  from model_train_test_fit_events [OF inner]
  show "p = \<lparr>iterations = 1000, learning_rate = 1 / 10, depth = 6,
           loss_function = ''MultiClass'', eval_metric = ''Accuracy'',
           random_seed = 42, task_type = ''GPU'',
           early_stopping_rounds = 50, custom_metric = [''Accuracy'']\<rparr>"
    by blast
  from model_train_test_fit_events [OF inner] red
  show "\<exists>scaled red X_test y_test.
            FastICA_fit_transform L n (Some 42) scaled = Inr red
            \<and> train_test_split L red (reshape_flat gt) (Some (reshape_flat gt)) (1 / 5) (Some 42)
                = Inr (X_train, X_test, y_train, y_test)
            \<and> eval_set = (X_test, y_test)"
    by blast
next
  fix res
  assume ok: "snd (ICA L cube gt n) = Inr res"
  then have "ICA L cube gt n = (fst (ICA L cube gt n), Inr res)"
    by (simp add: prod_eq_iff)
  then show "\<exists>X_train y_train eval_set.
           Call_CatBoost_fit
             \<lparr>iterations = 1000, learning_rate = 1 / 10, depth = 6,
              loss_function = ''MultiClass'', eval_metric = ''Accuracy'',
              random_seed = 42, task_type = ''GPU'',
              early_stopping_rounds = 50, custom_metric = [''Accuracy'']\<rparr>
             X_train y_train eval_set \<in> set (fst (ICA L cube gt n))"
  proof (cases rule: ICA_InrE)
    case (run h w b raw scaled red X_train X_test y_train y_test cbc y_pred acc y_pred_full
        cl_map gt_map report cm)
    from run(18) have "Call_CatBoost_fit
             \<lparr>iterations = 1000, learning_rate = 1 / 10, depth = 6,
              loss_function = ''MultiClass'', eval_metric = ''Accuracy'',
              random_seed = 42, task_type = ''GPU'',
              early_stopping_rounds = 50, custom_metric = [''Accuracy'']\<rparr>
             X_train y_train (X_test, y_test) \<in> set (fst (ICA L cube gt n))"
      by simp
    then show ?thesis
      by blast
  qed
qed

theorem C3_fit_configuration_and_validation_set_witness:
  "Call_CatBoost_fit
     \<lparr>iterations = 1000, learning_rate = 1 / 10, depth = 6,
      loss_function = ''MultiClass'', eval_metric = ''Accuracy'',
      random_seed = 42, task_type = ''GPU'',
      early_stopping_rounds = 50, custom_metric = [''Accuracy'']\<rparr>
     \<lparr>shape = [8, 1], data = [0, 1, 0, 1, 0, 1, 0, 1]\<rparr>
     \<lparr>shape = [8], data = [0, 1, 0, 1, 0, 1, 0, 1]\<rparr>
     (\<lparr>shape = [2, 1], data = [0, 1]\<rparr>, \<lparr>shape = [2], data = [0, 1]\<rparr>)
     \<in> set (fst (ICA demo_lib demo_cube demo_gt 1))
   \<and> (\<exists>scaled red.
         FastICA_fit_transform demo_lib 1 (Some 42) scaled = Inr red
         \<and> train_test_split demo_lib red (reshape_flat demo_gt) (Some (reshape_flat demo_gt))
             (1 / 5) (Some 42)
           = Inr (\<lparr>shape = [8, 1], data = [0, 1, 0, 1, 0, 1, 0, 1]\<rparr>,
                  \<lparr>shape = [2, 1], data = [0, 1]\<rparr>,
                  \<lparr>shape = [8], data = [0, 1, 0, 1, 0, 1, 0, 1]\<rparr>,
                  \<lparr>shape = [2], data = [0, 1]\<rparr>))"
proof -
  have fit: "Call_CatBoost_fit
     \<lparr>iterations = 1000, learning_rate = 1 / 10, depth = 6,
      loss_function = ''MultiClass'', eval_metric = ''Accuracy'',
      random_seed = 42, task_type = ''GPU'',
      early_stopping_rounds = 50, custom_metric = [''Accuracy'']\<rparr>
     \<lparr>shape = [8, 1], data = [0, 1, 0, 1, 0, 1, 0, 1]\<rparr>
     \<lparr>shape = [8], data = [0, 1, 0, 1, 0, 1, 0, 1]\<rparr>
     (\<lparr>shape = [2, 1], data = [0, 1]\<rparr>, \<lparr>shape = [2], data = [0, 1]\<rparr>)
     \<in> set (fst (ICA demo_lib demo_cube demo_gt 1))"
    unfolding demo_run by simp
  with C3_fit_configuration_and_validation_set [of demo_lib demo_cube demo_gt 1]
  show ?thesis
    by blast
qed

subsection \<open>The accuracy figure\<close>

text \<open>
  C4, as stated: the accuracy is computed on the test part only, and no training-set or
  unlabeled pixel enters it. The split is taken over all pixels, label 0 included, so
  unlabeled pixels are in the test part: on the checkerboard scene \<open>accuracy_score\<close>
  receives the test labels 0 and 1, the first of them the unlabeled pixel (0, 0).
\<close>

theorem C4_counterexample:
  "Call_accuracy_score \<lparr>shape = [2], data = [0, 1]\<rparr> \<lparr>shape = [2, 1], data = [0, 1]\<rparr>
     \<in> set (fst (ICA demo_lib demo_cube demo_gt 1))
   \<and> 0 \<in> set (data \<lparr>shape = [2], data = [0, 1 :: int]\<rparr>)
   \<and> data demo_gt ! 0 = 0"
  unfolding demo_run by (simp add: demo_gt_def)

text \<open>
  C4, amended: the accuracy returned by a run is \<open>accuracy_score(y_test, predict(X_test))\<close>
  for the test part \<open>(X_test, y_test)\<close> of the stratified split of the reduced table, and
  this is the only accuracy computed: no pixel of the train part enters it. The test
  part is drawn from all pixels, so pixels with label 0 count in it like any class.
\<close>

theorem C4_accuracy_on_test_part_only:
  assumes "ICA L cube gt n = (tr, Inr (acc, total_time, classification_map, ground_truth_map))"
  shows "\<exists>scaled red X_train X_test y_train y_test cbc y_pred.
      FastICA_fit_transform L n (Some 42) scaled = Inr red
    \<and> train_test_split L red (reshape_flat gt) (Some (reshape_flat gt)) (1 / 5) (Some 42)
        = Inr (X_train, X_test, y_train, y_test)
    \<and> CatBoost_fit L
         \<lparr>iterations = 1000, learning_rate = 1 / 10, depth = 6,
          loss_function = ''MultiClass'', eval_metric = ''Accuracy'',
          random_seed = 42, task_type = ''GPU'',
          early_stopping_rounds = 50, custom_metric = [''Accuracy'']\<rparr>
         X_train y_train (X_test, y_test) = Inr cbc
    \<and> CatBoost_predict L cbc X_test = Inr y_pred
    \<and> accuracy_score L y_test y_pred = Inr acc
    \<and> Call_accuracy_score y_test y_pred \<in> set tr
    \<and> (\<forall>a b. Call_accuracy_score a b \<in> set tr \<longrightarrow> a = y_test \<and> b = y_pred)"
  using assms
proof (cases rule: ICA_InrE)
  case (run h w b raw scaled red X_train X_test y_train y_test cbc y_pred acc' y_pred_full
      cl_map gt_map report cm)
  from run(17) have acc: "acc' = acc"
    by simp
  from run(18) have one: "Call_accuracy_score y_test y_pred \<in> set tr"
    and only: "\<forall>a b. Call_accuracy_score a b \<in> set tr \<longrightarrow> a = y_test \<and> b = y_pred"
    by simp_all
  from run(7-11) one only show ?thesis
    unfolding acc by blast
qed

theorem C4_accuracy_on_test_part_only_witness:
  "\<exists>scaled red X_train X_test y_train y_test cbc y_pred.
      FastICA_fit_transform demo_lib 1 (Some 42) scaled = Inr red
    \<and> train_test_split demo_lib red (reshape_flat demo_gt) (Some (reshape_flat demo_gt))
         (1 / 5) (Some 42)
        = Inr (X_train, X_test, y_train, y_test)
    \<and> CatBoost_fit demo_lib
         \<lparr>iterations = 1000, learning_rate = 1 / 10, depth = 6,
          loss_function = ''MultiClass'', eval_metric = ''Accuracy'',
          random_seed = 42, task_type = ''GPU'',
          early_stopping_rounds = 50, custom_metric = [''Accuracy'']\<rparr>
         X_train y_train (X_test, y_test) = Inr cbc
    \<and> CatBoost_predict demo_lib cbc X_test = Inr y_pred
    \<and> accuracy_score demo_lib y_test y_pred = Inr 1"
  using C4_accuracy_on_test_part_only [OF demo_run]
  by blast

subsection \<open>Errors of the split\<close>

text \<open>
  The split is called once, stratified on the labels, and nothing catches what it
  raises: an error of \<open>train_test_split\<close> ends \<open>model_train_test\<close> with that error, after
  that one call, with no second, unstratified split and no fit. Which error the splitter
  raises for a class too small to stratify, and what its message names, is decided inside
  scikit-learn; likewise the treatment of zero-variance columns is the scaler's own, the
  code calls \<open>StandardScaler().fit_transform\<close> and adds no guard.
\<close>

lemma split_error_ends_the_run:
  assumes "shape cube = [h, w, b]"
    and "train_test_split L red (reshape_flat gt) (Some (reshape_flat gt)) ts (Some rs)
           = Inl e"
  shows "model_train_test L cube gt red ts rs =
     ([Call_train_test_split red (reshape_flat gt) (Some (reshape_flat gt)) ts (Some rs)], Inl e)"
  unfolding model_train_test_def using assms
  by (simp add: shape_at_def reshape_def nd_size_def del: One_nat_def)

subsection \<open>Flattening and reshaping\<close>

lemma upt_block: "[0..<Suc H * W] = [0..<H * W] @ map (\<lambda>j. H * W + j) [0..<W]"
proof -
  have "[0..<H * W + W] = [0..<H * W] @ [H * W..<H * W + W]"
    by (rule upt_add_eq_append) simp
  moreover have "map (\<lambda>j. j + H * W) [0..<W] = [H * W..<W + H * W]"
    by (rule map_add_upt)
  then have "[H * W..<H * W + W] = map (\<lambda>j. H * W + j) [0..<W]"
    by (simp only: add.commute [of _ "H * W"])
  moreover have "Suc H * W = H * W + W"
    by simp
  ultimately show ?thesis
    by (simp only:)
qed

lemma concat_map_rows:
  "concat (map (\<lambda>i. map (\<lambda>j. f (i * W + j)) [0..<W]) [0..<H]) = map f [0..<H * W]"
proof (induction H)
  case 0
  show ?case by simp
next
  case (Suc H)
  have "concat (map (\<lambda>i. map (\<lambda>j. f (i * W + j)) [0..<W]) [0..<Suc H])
      = concat (map (\<lambda>i. map (\<lambda>j. f (i * W + j)) [0..<W]) [0..<H])
        @ map (\<lambda>j. f (H * W + j)) [0..<W]"
    by simp
  also have "\<dots> = map f [0..<H * W] @ map (\<lambda>j. f (H * W + j)) [0..<W]"
    by (simp only: Suc.IH)
  also have "\<dots> = map f ([0..<H * W] @ map (\<lambda>j. H * W + j) [0..<W])"
    by (simp only: map_append map_map comp_def)
  also have "\<dots> = map f [0..<Suc H * W]"
    by (simp only: upt_block)
  finally show ?case .
qed

text \<open>
  C6. For a cube of shape (H, W, B) and a ground truth of shape (H, W): flattening the
  cube to (H * W, B) succeeds and lists the pixels in row-major order (the rows of the
  table are the pixels of the cube, row after row); reshaping the table to (H, W, B)
  gives the cube back; reshaping the flattened labels to (H, W) gives the ground truth
  back; and the ground-truth map a run returns is the ground truth it was given.
\<close>

theorem C6_flatten_reshape_round_trip:
  assumes cube: "shape cube = [H, W, B]" and gt: "shape gt = [H, W]"
  shows "reshape cube [H * W, B] = Inr (cube\<lparr>shape := [H * W, B]\<rparr>)
    \<and> rows2 (cube\<lparr>shape := [H * W, B]\<rparr>) = concat (rows3 cube)
    \<and> reshape (cube\<lparr>shape := [H * W, B]\<rparr>) [H, W, B] = Inr cube
    \<and> reshape (reshape_flat gt) [H, W] = Inr gt
    \<and> (ICA L cube gt n = (tr, Inr (acc, total_time, classification_map, ground_truth_map))
         \<longrightarrow> ground_truth_map = gt)"
proof (intro conjI impI)
  show "reshape cube [H * W, B] = Inr (cube\<lparr>shape := [H * W, B]\<rparr>)"
    by (simp add: reshape_def nd_size_def cube)
  show "rows2 (cube\<lparr>shape := [H * W, B]\<rparr>) = concat (rows3 cube)"
    by (simp add: rows2_def rows3_def cube concat_map_rows [of "slice_at (data cube) B"])
  have "cube\<lparr>shape := [H, W, B]\<rparr> = cube"
    using cube by simp
  then show "reshape (cube\<lparr>shape := [H * W, B]\<rparr>) [H, W, B] = Inr cube"
    by (simp add: reshape_def nd_size_def)
  have same: "gt\<lparr>shape := [H, W]\<rparr> = gt"
    using gt by simp
  then show "reshape (reshape_flat gt) [H, W] = Inr gt"
    by (simp add: reshape_def reshape_flat_def nd_size_def gt)
  assume "ICA L cube gt n = (tr, Inr (acc, total_time, classification_map, ground_truth_map))"
  then show "ground_truth_map = gt"
  proof (cases rule: ICA_InrE)
    case (run h w b raw scaled red X_train X_test y_train y_test cbc y_pred acc' y_pred_full
        cl_map gt_map report cm)
    from run(1) cube have h: "h = H"
      by (simp add: shape_at_def)
    from run(2) cube have w: "w = W"
      by (simp add: shape_at_def)
    from run(14) have "gt_map = gt\<lparr>shape := [h, w]\<rparr>"
      by (simp add: reshape_def split: if_splits)
    with same have "gt_map = gt"
      by (simp add: h w)
    with run(17) show ?thesis
      by simp
  qed
qed

theorem C6_flatten_reshape_round_trip_witness:
  "reshape demo_cube [2 * 5, 2] = Inr (demo_cube\<lparr>shape := [2 * 5, 2]\<rparr>)
    \<and> rows2 (demo_cube\<lparr>shape := [2 * 5, 2]\<rparr>) = concat (rows3 demo_cube)
    \<and> reshape (demo_cube\<lparr>shape := [2 * 5, 2]\<rparr>) [2, 5, 2] = Inr demo_cube
    \<and> reshape (reshape_flat demo_gt) [2, 5] = Inr demo_gt
    \<and> \<lparr>shape = [2, 5], data = [0, 1, 0, 1, 0, 1, 0, 1, 0, 1]\<rparr> = demo_gt"
proof -
  have cube: "shape demo_cube = [2, 5, 2]" and gt: "shape demo_gt = [2, 5]"
    by (simp_all add: demo_cube_def demo_gt_def)
  note inst = C6_flatten_reshape_round_trip
      [where L = demo_lib and n = 1 and acc = 1 and total_time = 3
         and tr = "fst (ICA demo_lib demo_cube demo_gt 1)"
         and classification_map = "\<lparr>shape = [2, 5], data = [0, 2, 0, 2, 0, 2, 0, 2, 0, 2]\<rparr>"
         and ground_truth_map = "\<lparr>shape = [2, 5], data = [0, 1, 0, 1, 0, 1, 0, 1, 0, 1]\<rparr>",
       OF cube gt]
  have run: "ICA demo_lib demo_cube demo_gt 1
      = (fst (ICA demo_lib demo_cube demo_gt 1),
         Inr (1, 3, \<lparr>shape = [2, 5], data = [0, 2, 0, 2, 0, 2, 0, 2, 0, 2]\<rparr>,
              \<lparr>shape = [2, 5], data = [0, 1, 0, 1, 0, 1, 0, 1, 0, 1]\<rparr>))"
    by (simp add: demo_run)
  from inst run show ?thesis
    by blast
qed

subsection \<open>Determinism of the reduction and the split\<close>

lemma reduction_and_split_simps [simp]:
  "reduction_and_split [] = []"
  "reduction_and_split (e # tr) =
     (if carries_reduction_or_split e then e # reduction_and_split tr
      else reduction_and_split tr)"
  "reduction_and_split (tr @ tr') = reduction_and_split tr @ reduction_and_split tr'"
  by (simp_all add: reduction_and_split_def)

lemma model_train_test_reduction_and_split:
  "reduction_and_split (fst (model_train_test L cube gt red ts rs)) =
     (case shape_at cube 0 of Inl e \<Rightarrow> [] | Inr h \<Rightarrow>
      case shape_at cube 1 of Inl e \<Rightarrow> [] | Inr w \<Rightarrow>
      case shape_at cube 2 of Inl e \<Rightarrow> [] | Inr b \<Rightarrow>
      case reshape cube [h * w, b] of Inl e \<Rightarrow> [] | Inr raw \<Rightarrow>
        Call_train_test_split red (reshape_flat gt) (Some (reshape_flat gt)) ts (Some rs) #
        (case train_test_split L red (reshape_flat gt) (Some (reshape_flat gt)) ts (Some rs) of
           Inl e \<Rightarrow> []
         | Inr (X_train, X_test, y_train, y_test) \<Rightarrow>
             [Call_CatBoost_fit
                \<lparr>iterations = 1000, learning_rate = 1 / 10, depth = 6,
                 loss_function = ''MultiClass'', eval_metric = ''Accuracy'',
                 random_seed = rs, task_type = ''GPU'',
                 early_stopping_rounds = 50, custom_metric = [''Accuracy'']\<rparr>
                X_train y_train (X_test, y_test)]))"
  unfolding model_train_test_def Let_def
  by (auto simp: fst_then_do simp del: One_nat_def split: sum.splits prod.splits)

lemma ICA_reduction_and_split:
  "reduction_and_split (fst (ICA L cube gt n)) =
     (case shape_at cube 0 of Inl e \<Rightarrow> [] | Inr h \<Rightarrow>
      case shape_at cube 1 of Inl e \<Rightarrow> [] | Inr w \<Rightarrow>
      case shape_at cube 2 of Inl e \<Rightarrow> [] | Inr b \<Rightarrow>
      case reshape cube [h * w, b] of Inl e \<Rightarrow> [] | Inr raw \<Rightarrow>
      case StandardScaler_fit_transform L raw of Inl e \<Rightarrow> [] | Inr scaled \<Rightarrow>
        if n > int b then []
        else Call_FastICA_fit_transform n (Some 42) scaled #
          (case FastICA_fit_transform L n (Some 42) scaled of
             Inl e \<Rightarrow> []
           | Inr red \<Rightarrow>
               reduction_and_split (fst (model_train_test L cube gt red (1 / 5) 42))))"
  unfolding ICA_def
  by (auto simp: fst_then_do simp del: One_nat_def split: sum.splits prod.splits)

text \<open>
  C7. Take two runs on the same cube and labels, against libraries \<open>L1\<close> and \<open>L2\<close> that
  agree on what is reproducible: the scaler, and every seeded call of the ICA and of the
  split. They may differ in everything else: unseeded calls, the classifier, the
  metrics, the clock. Then the two runs make the same ICA call, hand the same reduced
  table to the split, and hand the same four parts of the split to the classifier. The
  code passes the seed 42 to both calls, so nothing unseeded reaches the reduction or
  the split. Floating-point differences between two executions of the solver are outside
  this model: a seeded call is a function of its arguments.
\<close>

theorem C7_seeded_reduction_and_split_are_reproducible:
  fixes L1 :: "'m lib" and L2 :: "'k lib"
  assumes scaler: "StandardScaler_fit_transform L1 = StandardScaler_fit_transform L2"
    and ica: "\<And>k s X. FastICA_fit_transform L1 k (Some s) X
                        = FastICA_fit_transform L2 k (Some s) X"
    and split: "\<And>X y stratify test_size s.
                  train_test_split L1 X y stratify test_size (Some s)
                  = train_test_split L2 X y stratify test_size (Some s)"
  shows "reduction_and_split (fst (ICA L1 cube gt n))
       = reduction_and_split (fst (ICA L2 cube gt n))"
  by (simp only: ICA_reduction_and_split model_train_test_reduction_and_split scaler ica split)

theorem C7_seeded_reduction_and_split_are_reproducible_witness:
  "reduction_and_split (fst (ICA demo_lib demo_cube demo_gt 1))
     = reduction_and_split (fst (ICA demo_lib_rerun demo_cube demo_gt 1))
   \<and> time_time demo_lib After_fit \<noteq> time_time demo_lib_rerun After_fit
   \<and> train_test_split demo_lib (demo_cube\<lparr>shape := [10, 2]\<rparr>) (reshape_flat demo_gt) None
        (1 / 5) None
      \<noteq> train_test_split demo_lib_rerun (demo_cube\<lparr>shape := [10, 2]\<rparr>) (reshape_flat demo_gt)
          None (1 / 5) None"
proof -
  have scaler: "StandardScaler_fit_transform demo_lib = StandardScaler_fit_transform demo_lib_rerun"
    by (simp add: demo_lib_rerun_def)
  have ica: "\<And>k s X. FastICA_fit_transform demo_lib k (Some s) X
                        = FastICA_fit_transform demo_lib_rerun k (Some s) X"
    by (simp add: demo_lib_rerun_def)
  have split: "\<And>X y stratify test_size s.
                  train_test_split demo_lib X y stratify test_size (Some s)
                  = train_test_split demo_lib_rerun X y stratify test_size (Some s)"
    by (simp add: demo_lib_rerun_def demo_lib_def)
  have clock: "time_time demo_lib After_fit \<noteq> time_time demo_lib_rerun After_fit"
    by (simp add: demo_lib_rerun_def demo_lib_def demo_clock_def)
  have unseeded: "train_test_split demo_lib (demo_cube\<lparr>shape := [10, 2]\<rparr>) (reshape_flat demo_gt)
        None (1 / 5) None
      \<noteq> train_test_split demo_lib_rerun (demo_cube\<lparr>shape := [10, 2]\<rparr>) (reshape_flat demo_gt)
          None (1 / 5) None"
    by (simp add: demo_lib_rerun_def demo_lib_def demo_split_def demo_cube_def Let_def)
  from C7_seeded_reduction_and_split_are_reproducible
    [of demo_lib demo_lib_rerun, OF scaler ica split] clock unseeded
  show ?thesis
    by blast
qed

subsection \<open>The renderer\<close>

lemma after_pair [simp]: "after tr ((tr', r), st) = ((tr @ tr', r), st)"
  by (simp add: after_def)

lemma after_finish [simp]: "after tr (finish x st) = ((tr, Inr x), st)"
  by (simp add: after_def finish_def)

lemma after_after [simp]: "after tr (after tr' m) = after (tr @ tr') m"
  by (simp add: after_def)

lemma and_then_plt_call:
  "and_then (plt_call ev f) g st =
     (case f st of
        Inl e \<Rightarrow> (([ev], Inl e), st)
      | Inr st' \<Rightarrow> after [ev] (g () st'))"
  by (simp add: and_then_def plt_call_def split: sum.splits)

lemma and_then_print_line:
  "and_then (print_line s) g st = after [Print_text s] (g () st)"
  by (simp add: and_then_def print_line_def)

lemma result_and_then:
  "snd (fst (and_then m f st)) =
     (case snd (fst (m st)) of
        Inl e \<Rightarrow> Inl e
      | Inr x \<Rightarrow> snd (fst (f x (snd (m st)))))"
  by (simp add: and_then_def after_def split: sum.splits)

lemma visualize_returns_None_or_raises:
  "snd (fst (visualize_classification_map P classification_map ground_truth_map dataset_name st))
     = Inr v \<Longrightarrow> v = PyNone"
  unfolding visualize_classification_map_def
  by (auto simp: result_and_then finish_def split: sum.splits)

lemma gcf_last: "gcf (st\<lparr>figures := fs @ [fig]\<rparr>) = fig"
  by (simp add: gcf_def)

lemma update_gca_last:
  "update_gca f (st\<lparr>figures := fs @ [fig]\<rparr>) =
     st\<lparr>figures := fs @
         [fig\<lparr>panels :=
               (if panels fig = [] then [(1, f new_axes)]
                else butlast (panels fig)
                       @ [(fst (last (panels fig)), f (snd (last (panels fig))))])\<rparr>]\<rparr>"
  by (simp add: update_gca_def Let_def gcf_last set_gcf_def split: prod.splits)

lemma demo_drawing_steps:
  assumes "length (shape ground_truth_map) = 2" and "length (shape classification_map) = 2"
  shows "plt_figure demo_pyplot (10, 5) st
      = Inr (st\<lparr>figures := figures st @
          [\<lparr>figsize = (10, 5), grid = (1, 1), panels = []\<rparr>]\<rparr>)"
    and "plt_subplot demo_pyplot 1 2 1
        (st\<lparr>figures := figures st @
          [\<lparr>figsize = (10, 5), grid = (1, 1), panels = []\<rparr>]\<rparr>)
      = Inr (st\<lparr>figures := figures st @
          [\<lparr>figsize = (10, 5), grid = (1, 2), panels = [(1, new_axes)]\<rparr>]\<rparr>)"
    and "plt_imshow demo_pyplot ground_truth_map ''jet''
        (st\<lparr>figures := figures st @
          [\<lparr>figsize = (10, 5), grid = (1, 2), panels = [(1, new_axes)]\<rparr>]\<rparr>)
      = Inr (st\<lparr>figures := figures st @
          [\<lparr>figsize = (10, 5), grid = (1, 2), panels = [(1, \<lparr>img = Some ground_truth_map, cmap = ''jet'', title = [], axis_on = True\<rparr>)]\<rparr>]\<rparr>)"
    and "plt_title demo_pyplot (''Ground Truth - '' @ dataset_name)
        (st\<lparr>figures := figures st @
          [\<lparr>figsize = (10, 5), grid = (1, 2), panels = [(1, \<lparr>img = Some ground_truth_map, cmap = ''jet'', title = [], axis_on = True\<rparr>)]\<rparr>]\<rparr>)
      = Inr (st\<lparr>figures := figures st @
          [\<lparr>figsize = (10, 5), grid = (1, 2), panels = [(1, \<lparr>img = Some ground_truth_map, cmap = ''jet'', title = ''Ground Truth - '' @ dataset_name, axis_on = True\<rparr>)]\<rparr>]\<rparr>)"
    and "plt_axis demo_pyplot ''off''
        (st\<lparr>figures := figures st @
          [\<lparr>figsize = (10, 5), grid = (1, 2), panels = [(1, \<lparr>img = Some ground_truth_map, cmap = ''jet'', title = ''Ground Truth - '' @ dataset_name, axis_on = True\<rparr>)]\<rparr>]\<rparr>)
      = Inr (st\<lparr>figures := figures st @
          [\<lparr>figsize = (10, 5), grid = (1, 2), panels = [(1, \<lparr>img = Some ground_truth_map, cmap = ''jet'', title = ''Ground Truth - '' @ dataset_name, axis_on = False\<rparr>)]\<rparr>]\<rparr>)"
    and "plt_subplot demo_pyplot 1 2 2
        (st\<lparr>figures := figures st @
          [\<lparr>figsize = (10, 5), grid = (1, 2), panels = [(1, \<lparr>img = Some ground_truth_map, cmap = ''jet'', title = ''Ground Truth - '' @ dataset_name, axis_on = False\<rparr>)]\<rparr>]\<rparr>)
      = Inr (st\<lparr>figures := figures st @
          [\<lparr>figsize = (10, 5), grid = (1, 2), panels = [(1, \<lparr>img = Some ground_truth_map, cmap = ''jet'', title = ''Ground Truth - '' @ dataset_name, axis_on = False\<rparr>),
            (2, new_axes)]\<rparr>]\<rparr>)"
    and "plt_imshow demo_pyplot classification_map ''tab20''
        (st\<lparr>figures := figures st @
          [\<lparr>figsize = (10, 5), grid = (1, 2), panels = [(1, \<lparr>img = Some ground_truth_map, cmap = ''jet'', title = ''Ground Truth - '' @ dataset_name, axis_on = False\<rparr>),
            (2, new_axes)]\<rparr>]\<rparr>)
      = Inr (st\<lparr>figures := figures st @
          [\<lparr>figsize = (10, 5), grid = (1, 2), panels = [(1, \<lparr>img = Some ground_truth_map, cmap = ''jet'', title = ''Ground Truth - '' @ dataset_name, axis_on = False\<rparr>),
            (2, \<lparr>img = Some classification_map, cmap = ''tab20'', title = [], axis_on = True\<rparr>)]\<rparr>]\<rparr>)"
    and "plt_title demo_pyplot (''Classification Map - '' @ dataset_name)
        (st\<lparr>figures := figures st @
          [\<lparr>figsize = (10, 5), grid = (1, 2), panels = [(1, \<lparr>img = Some ground_truth_map, cmap = ''jet'', title = ''Ground Truth - '' @ dataset_name, axis_on = False\<rparr>),
            (2, \<lparr>img = Some classification_map, cmap = ''tab20'', title = [], axis_on = True\<rparr>)]\<rparr>]\<rparr>)
      = Inr (st\<lparr>figures := figures st @
          [\<lparr>figsize = (10, 5), grid = (1, 2), panels = [(1, \<lparr>img = Some ground_truth_map, cmap = ''jet'', title = ''Ground Truth - '' @ dataset_name, axis_on = False\<rparr>),
            (2, \<lparr>img = Some classification_map, cmap = ''tab20'', title = ''Classification Map - '' @ dataset_name, axis_on = True\<rparr>)]\<rparr>]\<rparr>)"
    and "plt_axis demo_pyplot ''off''
        (st\<lparr>figures := figures st @
          [\<lparr>figsize = (10, 5), grid = (1, 2), panels = [(1, \<lparr>img = Some ground_truth_map, cmap = ''jet'', title = ''Ground Truth - '' @ dataset_name, axis_on = False\<rparr>),
            (2, \<lparr>img = Some classification_map, cmap = ''tab20'', title = ''Classification Map - '' @ dataset_name, axis_on = True\<rparr>)]\<rparr>]\<rparr>)
      = Inr (st\<lparr>figures := figures st @
          [\<lparr>figsize = (10, 5), grid = (1, 2), panels = [(1, \<lparr>img = Some ground_truth_map, cmap = ''jet'', title = ''Ground Truth - '' @ dataset_name, axis_on = False\<rparr>),
            (2, \<lparr>img = Some classification_map, cmap = ''tab20'', title = ''Classification Map - '' @ dataset_name, axis_on = False\<rparr>)]\<rparr>]\<rparr>)"
  using assms
  by (simp_all add: demo_pyplot_def demo_plt_figure_def demo_plt_subplot_def demo_plt_imshow_def
      demo_plt_title_def demo_plt_axis_def update_gca_last new_figure_def new_axes_def
      gcf_last set_gcf_def Let_def)

text \<open>
  C9, as stated: the renderer returns the path of the file it wrote. The function has
  no \<open>return\<close>: where the file is stored (against the stand-in pyplot, for the name
  \<open>Salinas\<close>), the value of the call is \<open>None\<close>, and the path is only printed.
\<close>

theorem C9_counterexample:
  "snd (fst (visualize_classification_map demo_pyplot demo_gt demo_gt ''Salinas'' demo_plt))
     = Inr PyNone
   \<and> files (snd (visualize_classification_map demo_pyplot demo_gt demo_gt ''Salinas'' demo_plt))
        ''Salinas_classification_vs_ground_truth.png'' \<noteq> None"
  by code_simp

text \<open>
  C9, amended: for every dataset name, when the nine drawing calls succeed (a new 10 x 5
  figure; panel 1 of a 1 x 2 grid with the ground truth in \<open>jet\<close>, its title, axes off;
  panel 2 with the classification map in \<open>tab20\<close>, its title, axes off), the renderer
  calls \<open>savefig\<close> exactly once, with the path
  \<open>{dataset_name}_classification_vs_ground_truth.png\<close> relative to the working
  directory. If \<open>savefig\<close> returns, the renderer prints \<open>Figure saved as\<close> followed by
  that path, returns \<open>None\<close> and leaves the state \<open>savefig\<close> left; if \<open>savefig\<close> raises,
  as it does for a name that points into a directory that does not exist, the error
  goes to the caller, nothing is printed and nothing is stored by the renderer.
\<close>

theorem C9_renderer_saves_once_and_returns_None:
  assumes "plt_figure P (10, 5) s0 = Inr s1"
    and "plt_subplot P 1 2 1 s1 = Inr s2"
    and "plt_imshow P ground_truth_map ''jet'' s2 = Inr s3"
    and "plt_title P (''Ground Truth - '' @ dataset_name) s3 = Inr s4"
    and "plt_axis P ''off'' s4 = Inr s5"
    and "plt_subplot P 1 2 2 s5 = Inr s6"
    and "plt_imshow P classification_map ''tab20'' s6 = Inr s7"
    and "plt_title P (''Classification Map - '' @ dataset_name) s7 = Inr s8"
    and "plt_axis P ''off'' s8 = Inr s9"
  shows "visualize_classification_map P classification_map ground_truth_map dataset_name s0 =
     (case plt_savefig P (dataset_name @ ''_classification_vs_ground_truth.png'') s9 of
        Inr s10 \<Rightarrow>
          (([Call_plt_figure (10, 5),
             Call_plt_subplot 1 2 1,
             Call_plt_imshow ground_truth_map ''jet'',
             Call_plt_title (''Ground Truth - '' @ dataset_name),
             Call_plt_axis ''off'',
             Call_plt_subplot 1 2 2,
             Call_plt_imshow classification_map ''tab20'',
             Call_plt_title (''Classification Map - '' @ dataset_name),
             Call_plt_axis ''off'',
             Call_plt_savefig (dataset_name @ ''_classification_vs_ground_truth.png''),
             Print_text (''Figure saved as '' @ dataset_name
                           @ ''_classification_vs_ground_truth.png'')],
            Inr PyNone), s10)
      | Inl e \<Rightarrow>
          (([Call_plt_figure (10, 5),
             Call_plt_subplot 1 2 1,
             Call_plt_imshow ground_truth_map ''jet'',
             Call_plt_title (''Ground Truth - '' @ dataset_name),
             Call_plt_axis ''off'',
             Call_plt_subplot 1 2 2,
             Call_plt_imshow classification_map ''tab20'',
             Call_plt_title (''Classification Map - '' @ dataset_name),
             Call_plt_axis ''off'',
             Call_plt_savefig (dataset_name @ ''_classification_vs_ground_truth.png'')],
            Inl e), s9))"
  using assms unfolding visualize_classification_map_def
  by (simp add: and_then_plt_call and_then_print_line del: One_nat_def split: sum.splits)

theorem C9_renderer_saves_once_and_returns_None_witness:
  "visualize_classification_map demo_pyplot demo_gt demo_gt ''Salinas'' demo_plt =
     (([Call_plt_figure (10, 5),
          Call_plt_subplot 1 2 1,
          Call_plt_imshow demo_gt ''jet'',
          Call_plt_title ''Ground Truth - Salinas'',
          Call_plt_axis ''off'',
          Call_plt_subplot 1 2 2,
          Call_plt_imshow demo_gt ''tab20'',
          Call_plt_title ''Classification Map - Salinas'',
          Call_plt_axis ''off'',
          Call_plt_savefig ''Salinas_classification_vs_ground_truth.png'',
          Print_text ''Figure saved as Salinas_classification_vs_ground_truth.png''],
       Inr PyNone),
      demo_plt
        \<lparr>figures := [\<lparr>figsize = (10, 5), grid = (1, 2),
              panels =
                [(1, \<lparr>img = Some demo_gt, cmap = ''jet'',
                       title = ''Ground Truth - Salinas'', axis_on = False\<rparr>),
                 (2, \<lparr>img = Some demo_gt, cmap = ''tab20'',
                       title = ''Classification Map - Salinas'', axis_on = False\<rparr>)]\<rparr>],
         files := (files demo_plt)
           (''Salinas_classification_vs_ground_truth.png'' \<mapsto>
            \<lparr>figsize = (10, 5), grid = (1, 2),
              panels =
                [(1, \<lparr>img = Some demo_gt, cmap = ''jet'',
                       title = ''Ground Truth - Salinas'', axis_on = False\<rparr>),
                 (2, \<lparr>img = Some demo_gt, cmap = ''tab20'',
                       title = ''Classification Map - Salinas'', axis_on = False\<rparr>)]\<rparr>)\<rparr>)
   \<and> visualize_classification_map demo_pyplot demo_gt demo_gt ''nodir/x'' demo_plt =
     (([Call_plt_figure (10, 5),
          Call_plt_subplot 1 2 1,
          Call_plt_imshow demo_gt ''jet'',
          Call_plt_title ''Ground Truth - nodir/x'',
          Call_plt_axis ''off'',
          Call_plt_subplot 1 2 2,
          Call_plt_imshow demo_gt ''tab20'',
          Call_plt_title ''Classification Map - nodir/x'',
          Call_plt_axis ''off'',
          Call_plt_savefig ''nodir/x_classification_vs_ground_truth.png''],
       Inl (FileNotFoundError ''nodir/x_classification_vs_ground_truth.png'')),
      demo_plt
        \<lparr>figures := [\<lparr>figsize = (10, 5), grid = (1, 2),
              panels =
                [(1, \<lparr>img = Some demo_gt, cmap = ''jet'',
                       title = ''Ground Truth - nodir/x'', axis_on = False\<rparr>),
                 (2, \<lparr>img = Some demo_gt, cmap = ''tab20'',
                       title = ''Classification Map - nodir/x'', axis_on = False\<rparr>)]\<rparr>]\<rparr>)"
proof -
  have two_dim: "length (shape demo_gt) = 2"
    by (simp add: demo_gt_def)
  note run = C9_renderer_saves_once_and_returns_None [OF demo_drawing_steps [OF two_dim two_dim]]
  have "visualize_classification_map demo_pyplot demo_gt demo_gt ''Salinas'' demo_plt =
     (([Call_plt_figure (10, 5),
          Call_plt_subplot 1 2 1,
          Call_plt_imshow demo_gt ''jet'',
          Call_plt_title ''Ground Truth - Salinas'',
          Call_plt_axis ''off'',
          Call_plt_subplot 1 2 2,
          Call_plt_imshow demo_gt ''tab20'',
          Call_plt_title ''Classification Map - Salinas'',
          Call_plt_axis ''off'',
          Call_plt_savefig ''Salinas_classification_vs_ground_truth.png'',
          Print_text ''Figure saved as Salinas_classification_vs_ground_truth.png''],
       Inr PyNone),
      demo_plt
        \<lparr>figures := [\<lparr>figsize = (10, 5), grid = (1, 2),
              panels =
                [(1, \<lparr>img = Some demo_gt, cmap = ''jet'',
                       title = ''Ground Truth - Salinas'', axis_on = False\<rparr>),
                 (2, \<lparr>img = Some demo_gt, cmap = ''tab20'',
                       title = ''Classification Map - Salinas'', axis_on = False\<rparr>)]\<rparr>],
         files := (files demo_plt)
           (''Salinas_classification_vs_ground_truth.png'' \<mapsto>
            \<lparr>figsize = (10, 5), grid = (1, 2),
              panels =
                [(1, \<lparr>img = Some demo_gt, cmap = ''jet'',
                       title = ''Ground Truth - Salinas'', axis_on = False\<rparr>),
                 (2, \<lparr>img = Some demo_gt, cmap = ''tab20'',
                       title = ''Classification Map - Salinas'', axis_on = False\<rparr>)]\<rparr>)\<rparr>)"
    using run
    by (simp add: demo_plt_def demo_pyplot_def demo_plt_savefig_def gcf_def)
  moreover have "visualize_classification_map demo_pyplot demo_gt demo_gt ''nodir/x'' demo_plt =
     (([Call_plt_figure (10, 5),
          Call_plt_subplot 1 2 1,
          Call_plt_imshow demo_gt ''jet'',
          Call_plt_title ''Ground Truth - nodir/x'',
          Call_plt_axis ''off'',
          Call_plt_subplot 1 2 2,
          Call_plt_imshow demo_gt ''tab20'',
          Call_plt_title ''Classification Map - nodir/x'',
          Call_plt_axis ''off'',
          Call_plt_savefig ''nodir/x_classification_vs_ground_truth.png''],
       Inl (FileNotFoundError ''nodir/x_classification_vs_ground_truth.png'')),
      demo_plt
        \<lparr>figures := [\<lparr>figsize = (10, 5), grid = (1, 2),
              panels =
                [(1, \<lparr>img = Some demo_gt, cmap = ''jet'',
                       title = ''Ground Truth - nodir/x'', axis_on = False\<rparr>),
                 (2, \<lparr>img = Some demo_gt, cmap = ''tab20'',
                       title = ''Classification Map - nodir/x'', axis_on = False\<rparr>)]\<rparr>]\<rparr>)"
    using run
    by (simp add: demo_plt_def demo_pyplot_def demo_plt_savefig_def gcf_def dirname_def)
  ultimately show ?thesis
    by (rule conjI)
qed

subsection \<open>Label 0\<close>

lemma demo_split_keeps_labels:
  assumes "train_test_split demo_lib X y stratify test_size seed
             = Inr (X_train, X_test, y_train, y_test)"
  shows "count_list (data y_train) c + count_list (data y_test) c = count_list (data y) c"
proof -
  have split: "count_list (drop t ys) c + count_list (take t ys) c = count_list ys c"
    for t and ys :: "int list"
  proof -
    have "count_list (take t ys @ drop t ys) c = count_list ys c"
      by simp
    then show ?thesis
      unfolding count_list_append by simp
  qed
  from assms show ?thesis
    by (auto simp: demo_lib_def demo_split_def Let_def split split: list.splits)
qed

text \<open>
  C10. In every run that returns, nothing masks label 0. The labels handed to the split,
  as targets and as stratification key, are all the labels of the ground truth; the
  classifier is fitted on the train part of that split, with its test part as validation
  set; the accuracy returned is \<open>accuracy_score\<close> of the test labels against the model's
  prediction on the test features; the report and the confusion matrix that are printed
  are computed from all the labels against the full prediction; the ground-truth map
  returned holds every label; and the trace of the run is exactly these calls and prints.
  When the split keeps every label it is given, as a partition does, every class, 0 like
  any other, has each of its pixels in the train or in the test part.
\<close>

theorem C10_label_zero_is_an_ordinary_class:
  assumes run: "ICA L cube gt n = (tr, Inr res)"
    and keeps: "\<forall>X y stratify test_size seed X_train X_test y_train y_test c.
      train_test_split L X y stratify test_size seed = Inr (X_train, X_test, y_train, y_test)
      \<longrightarrow> count_list (data y_train) c + count_list (data y_test) c = count_list (data y) c"
  shows "\<exists>h w b raw scaled red X_train X_test y_train y_test cbc y_pred acc y_pred_full
           cl_map gt_map report cm.
      data (reshape_flat gt) = data gt
    \<and> reshape cube [h * w, b] = Inr raw
    \<and> FastICA_fit_transform L n (Some 42) scaled = Inr red
    \<and> train_test_split L red (reshape_flat gt) (Some (reshape_flat gt)) (1 / 5) (Some 42)
        = Inr (X_train, X_test, y_train, y_test)
    \<and> (\<forall>c. count_list (data y_train) c + count_list (data y_test) c
             = count_list (data gt) c)
    \<and> CatBoost_fit L
         \<lparr>iterations = 1000, learning_rate = 1 / 10, depth = 6,
          loss_function = ''MultiClass'', eval_metric = ''Accuracy'',
          random_seed = 42, task_type = ''GPU'',
          early_stopping_rounds = 50, custom_metric = [''Accuracy'']\<rparr>
         X_train y_train (X_test, y_test) = Inr cbc
    \<and> CatBoost_predict L cbc X_test = Inr y_pred
    \<and> accuracy_score L y_test y_pred = Inr acc
    \<and> CatBoost_predict L cbc raw = Inr y_pred_full
    \<and> reshape y_pred_full [h, w] = Inr cl_map
    \<and> reshape gt [h, w] = Inr gt_map
    \<and> data gt_map = data gt
    \<and> classification_report L (reshape_flat gt) y_pred_full = Inr report
    \<and> confusion_matrix L (reshape_flat gt) y_pred_full = Inr cm
    \<and> res = (acc, time_time L After_fit - time_time L Before_fit, cl_map, gt_map)
    \<and> tr =
        [Call_StandardScaler_fit_transform raw,
         Call_FastICA_fit_transform n (Some 42) scaled,
         Print_shape ''Shape of data after ICA reduction: '' (shape red),
         Call_train_test_split red (reshape_flat gt) (Some (reshape_flat gt)) (1 / 5) (Some 42),
         Print_unique ''Unique classes in train set: '' (np_unique y_train),
         Print_unique ''Unique classes in test set: '' (np_unique y_test),
         Call_CatBoost_fit
           \<lparr>iterations = 1000, learning_rate = 1 / 10, depth = 6,
            loss_function = ''MultiClass'', eval_metric = ''Accuracy'',
            random_seed = 42, task_type = ''GPU'',
            early_stopping_rounds = 50, custom_metric = [''Accuracy'']\<rparr>
           X_train y_train (X_test, y_test),
         Call_CatBoost_predict X_test,
         Call_accuracy_score y_test y_pred,
         Print_accuracy ''Test set accuracy: '' acc,
         Call_CatBoost_predict raw,
         Print_unique ''Unique classes in full prediction: '' (np_unique y_pred_full),
         Print_shape ''Shape of classification map: '' (shape cl_map),
         Print_shape ''Shape of ground truth map: '' (shape gt_map),
         Print_unique ''Unique values in classification map: '' (np_unique cl_map),
         Print_unique ''Unique values in ground truth map: '' (np_unique gt_map),
         Print_text ''Classification Report:'',
         Call_classification_report (reshape_flat gt) y_pred_full,
         Print_text report,
         Print_text ''Confusion Matrix:'',
         Call_confusion_matrix (reshape_flat gt) y_pred_full,
         Print_matrix cm]"
  using run
proof (cases rule: ICA_InrE)
  case (run h w b raw scaled red X_train X_test y_train y_test cbc y_pred acc y_pred_full
      cl_map gt_map report cm)
  have flat: "data (reshape_flat gt) = data gt"
    by (simp add: reshape_flat_def)
  have counts: "\<forall>c. count_list (data y_train) c + count_list (data y_test) c
      = count_list (data gt) c"
    using keeps [rule_format, OF run(8)] flat by simp
  from run(14) have kept: "data gt_map = data gt"
    by (auto simp: reshape_def split: if_splits)
  from flat counts kept run(4,7-18) show ?thesis
    by blast
qed

theorem C10_label_zero_is_an_ordinary_class_witness:
  "\<exists>scaled red X_train X_test y_train y_test cbc y_pred y_pred_full report cm.
      FastICA_fit_transform demo_lib 1 (Some 42) scaled = Inr red
    \<and> train_test_split demo_lib red (reshape_flat demo_gt) (Some (reshape_flat demo_gt))
          (1 / 5) (Some 42)
        = Inr (X_train, X_test, y_train, y_test)
    \<and> count_list (data y_train) 0 + count_list (data y_test) 0 = 5
    \<and> CatBoost_fit demo_lib
         \<lparr>iterations = 1000, learning_rate = 1 / 10, depth = 6,
          loss_function = ''MultiClass'', eval_metric = ''Accuracy'',
          random_seed = 42, task_type = ''GPU'',
          early_stopping_rounds = 50, custom_metric = [''Accuracy'']\<rparr>
         X_train y_train (X_test, y_test) = Inr cbc
    \<and> CatBoost_predict demo_lib cbc X_test = Inr y_pred
    \<and> accuracy_score demo_lib y_test y_pred = Inr 1
    \<and> classification_report demo_lib (reshape_flat demo_gt) y_pred_full = Inr report
    \<and> confusion_matrix demo_lib (reshape_flat demo_gt) y_pred_full = Inr cm"
proof -
  have keeps: "\<forall>X y stratify test_size seed X_train X_test y_train y_test c.
      train_test_split demo_lib X y stratify test_size seed
        = Inr (X_train, X_test, y_train, y_test)
      \<longrightarrow> count_list (data y_train) c + count_list (data y_test) c = count_list (data y) c"
    by (intro allI impI) (rule demo_split_keeps_labels)
  have zeros: "count_list (data demo_gt) 0 = 5"
    by (simp add: demo_gt_def)
  from C10_label_zero_is_an_ordinary_class [OF demo_run keeps] show ?thesis
  proof (elim exE conjE)
    fix h w b raw scaled red X_train X_test y_train y_test cbc y_pred acc y_pred_full
      cl_map gt_map report cm
    assume ica: "FastICA_fit_transform demo_lib 1 (Some 42) scaled = Inr red"
      and split: "train_test_split demo_lib red (reshape_flat demo_gt)
          (Some (reshape_flat demo_gt)) (1 / 5) (Some 42)
        = Inr (X_train, X_test, y_train, y_test)"
      and counts: "\<forall>c. count_list (data y_train) c + count_list (data y_test) c
             = count_list (data demo_gt) c"
      and fit: "CatBoost_fit demo_lib
         \<lparr>iterations = 1000, learning_rate = 1 / 10, depth = 6,
          loss_function = ''MultiClass'', eval_metric = ''Accuracy'',
          random_seed = 42, task_type = ''GPU'',
          early_stopping_rounds = 50, custom_metric = [''Accuracy'']\<rparr>
         X_train y_train (X_test, y_test) = Inr cbc"
      and pred: "CatBoost_predict demo_lib cbc X_test = Inr y_pred"
      and accu: "accuracy_score demo_lib y_test y_pred = Inr acc"
      and report: "classification_report demo_lib (reshape_flat demo_gt) y_pred_full = Inr report"
      and matrix: "confusion_matrix demo_lib (reshape_flat demo_gt) y_pred_full = Inr cm"
      and res: "(1, 3, \<lparr>shape = [2, 5], data = [0, 2, 0, 2, 0, 2, 0, 2, 0, 2]\<rparr>,
           \<lparr>shape = [2, 5], data = [0, 1, 0, 1, 0, 1, 0, 1, 0, 1]\<rparr>)
          = (acc, time_time demo_lib After_fit - time_time demo_lib Before_fit, cl_map, gt_map)"
    from res have acc: "acc = 1"
      by simp
    from counts zeros have five: "count_list (data y_train) 0 + count_list (data y_test) 0 = 5"
      by simp
    from ica split five fit pred accu [unfolded acc] report matrix show ?thesis
      by blast
  qed
qed

end
